theory Spec2Isabelle
  imports Main "HOL-Library.Sublist"
begin

section \<open>Go library functions used by the server\<close>

text \<open>
  The server is written against Go's standard library. The functions below give the
  behaviour of the library calls that the server makes, for Unix paths (separator
  \<open>/\<close>), where \<open>filepath.Clean\<close> and \<open>path.Clean\<close> agree and \<open>filepath.FromSlash\<close>
  is the identity. Go strings are byte sequences: \<open>string\<close>.
\<close>

subsection \<open>Package strings\<close>

text \<open>\<open>strings.HasPrefix(s, p)\<close>.\<close>

definition HasPrefix :: "string \<Rightarrow> string \<Rightarrow> bool" where
  "HasPrefix s p = prefix p s"

text \<open>
  \<open>strings.SplitAfterN(s, sep, 2)\<close> for a one-byte separator: \<open>s\<close> is cut once, after
  the first occurrence of \<open>sep\<close>; without an occurrence the result is the one-element
  slice \<open>[s]\<close>.
\<close>

definition SplitAfterN2 :: "string \<Rightarrow> char \<Rightarrow> string list" where
  "SplitAfterN2 s sep =
     (if sep \<in> set s
      then [takeWhile (\<lambda>c. c \<noteq> sep) s @ [sep], drop 1 (dropWhile (\<lambda>c. c \<noteq> sep) s)]
      else [s])"

text \<open>\<open>strings.Replace(s, old, "", 1)\<close> for a one-byte \<open>old\<close>: the first occurrence is removed.\<close>

definition Replace1 :: "string \<Rightarrow> char \<Rightarrow> string" where
  "Replace1 s old = remove1 old s"

text \<open>\<open>strings.Join(elems, sep)\<close>.\<close>

fun Join_strings :: "string list \<Rightarrow> string \<Rightarrow> string" where
  "Join_strings [] sep = []"
| "Join_strings [e] sep = e"
| "Join_strings (e # es) sep = e @ sep @ Join_strings es sep"

subsection \<open>Packages path and path/filepath\<close>

text \<open>The elements of a path: the pieces between the separators, empty ones included.\<close>

fun path_elems :: "string \<Rightarrow> string list" where
  "path_elems [] = [[]]"
| "path_elems (c # cs) =
     (if c = CHR ''/'' then [] # path_elems cs
      else (case path_elems cs of
              [] \<Rightarrow> [[c]]
            | e # es \<Rightarrow> (c # e) # es))"

text \<open>
  One step of \<open>Clean\<close>. The elements kept so far are held last-first. An empty element
  and \<open>.\<close> are dropped; \<open>..\<close> removes the element before it, is dropped at the root of
  a rooted path, and is kept at the start of a path that is not rooted.
\<close>

definition clean_step :: "bool \<Rightarrow> string list \<Rightarrow> string \<Rightarrow> string list" where
  "clean_step rooted kept e =
     (if e = [] \<or> e = ''.'' then kept
      else if e = ''..'' then
        (case kept of
           [] \<Rightarrow> (if rooted then [] else [''..''])
         | k # ks \<Rightarrow> (if k = ''..'' then ''..'' # kept else ks))
      else e # kept)"

text \<open>
  \<open>path.Clean\<close>: the shortest path equivalent to its argument by lexical processing.
  The empty path becomes \<open>.\<close>; the result ends in a slash only when it is the root.
\<close>

definition Clean :: "string \<Rightarrow> string" where
  "Clean p =
     (if p = [] then ''.''
      else
        (let rooted = (hd p = CHR ''/'');
             kept = foldl (clean_step rooted) [] (path_elems p)
         in if rooted then CHR ''/'' # Join_strings (rev kept) ''/''
            else if kept = [] then ''.''
            else Join_strings (rev kept) ''/''))"

text \<open>
  \<open>filepath.Join\<close>: empty leading elements are ignored, the rest is joined with the
  separator and cleaned; with nothing but empty elements the result is empty.
\<close>

definition filepath_Join :: "string list \<Rightarrow> string" where
  "filepath_Join elems =
     (case dropWhile (\<lambda>e. e = []) elems of
        [] \<Rightarrow> []
      | es \<Rightarrow> Clean (Join_strings es ''/''))"

text \<open>
  \<open>filepath.Abs\<close>: an absolute path is cleaned; any other path is joined onto the
  working directory, and the call fails when the working directory cannot be read.
  The first argument is the result of \<open>os.Getwd\<close> (\<open>None\<close> when it fails).
\<close>

definition filepath_Abs :: "string option \<Rightarrow> string \<Rightarrow> string option" where
  "filepath_Abs wd p =
     (if HasPrefix p ''/'' then Some (Clean p)
      else (case wd of
              None \<Rightarrow> None
            | Some d \<Rightarrow> Some (filepath_Join [d, p])))"

text \<open>
  \<open>filepath.Ext\<close>: the suffix of the last path element that starts at its final dot,
  the dot included; empty when that element has no dot.
\<close>

definition Ext :: "string \<Rightarrow> string" where
  "Ext p =
     (let base = rev (takeWhile (\<lambda>c. c \<noteq> CHR ''/'') (rev p))
      in if CHR ''.'' \<in> set base
         then CHR ''.'' # rev (takeWhile (\<lambda>c. c \<noteq> CHR ''.'') (rev base))
         else [])"

section \<open>Data model\<close>

text \<open>\<open>url.URL\<close>: the fields the server writes, and the query string.\<close>

record url =
  Scheme :: string
  Host :: string
  Path :: string
  RawQuery :: string

text \<open>
  \<open>http.Request\<close>. \<open>RequestURI\<close> is the request target exactly as the client sent it on
  the request line (path and query string, not decoded); \<open>URL\<close> is the parsed target,
  whose \<open>Path\<close> is the decoded path and whose \<open>RawQuery\<close> is the query string; \<open>Req_Host\<close> is the
  field \<open>Host\<close> of the request.
\<close>

record request =
  Method :: string
  RequestURI :: string
  URL :: url
  Req_Host :: string

text \<open>
  The handlers, as the values of \<open>http.Handler\<close> that the server builds:
  the reverse proxy for a destination URL, \<open>filesystemHandler\<close> (its \<open>logger\<close> is left
  out: log lines are not part of a response), \<open>NotFoundFileHandler\<close>, and a handler
  wrapped by \<open>LoggingMiddleware\<close>. A \<open>nil\<close> handler is \<open>None\<close>.
\<close>

datatype handler =
    ReverseProxy url
  | filesystemHandler (path: string) (notFoundHandler: "handler option")
  | NotFoundFileHandler (filePath: string)
  | LoggingMiddleware handler

record Endpoint =
  MountPoint :: string
  Destination :: handler

record Server =
  endpoints :: "Endpoint list"

text \<open>
  A Go call returns its value, returns an error, or panics. The errors are those the
  server builds with \<open>fmt.Errorf\<close>; the text of a wrapped library error is not kept.
\<close>

datatype error =
    UnableToParseURL
  | UnableToParseProxy error
  | UnknownType string
  | UnableToParseEndpoint error

datatype panic =
    IndexOutOfRange nat nat
  | AbsFailed

datatype 'a outcome = Return 'a | Err error | Panic panic

subsection \<open>Files and responses\<close>

text \<open>
  What reading an opened file to its end gives: all its bytes, or an error after
  some of them.
\<close>

datatype read_result = ReadAll string | ReadError string

text \<open>
  The file system as the handlers see it. \<open>os_Stat\<close> gives \<open>None\<close> when \<open>os.Stat\<close>
  returns an error and otherwise \<open>IsDir()\<close>; \<open>os_Open\<close> gives \<open>None\<close> when \<open>os.Open\<close>
  returns an error. Nothing ties the two together.
\<close>

record filesystem =
  os_Stat :: "string \<Rightarrow> bool option"
  os_Open :: "string \<Rightarrow> read_result option"

datatype fs_call = StatCall string | OpenCall string

text \<open>
  The state of one exchange: the response header, the status code once it has been
  written, the body written so far, and the calls made to the file system, in order.
\<close>

record exchange =
  header :: "string \<rightharpoonup> string"
  status :: "nat option"
  body :: string
  calls :: "fs_call list"

definition fresh :: exchange where
  "fresh = \<lparr>header = Map.empty, status = None, body = [], calls = []\<rparr>"

text \<open>The status code that the client receives: 200 unless the handler wrote another.\<close>

definition status_code :: "exchange \<Rightarrow> nat" where
  "status_code w = (case status w of None \<Rightarrow> 200 | Some c \<Rightarrow> c)"

text \<open>\<open>ResponseWriter.WriteHeader\<close>: only the first call sets the status code.\<close>

definition WriteHeader :: "exchange \<Rightarrow> nat \<Rightarrow> exchange" where
  "WriteHeader w code = (if status w = None then w\<lparr>status := Some code\<rparr> else w)"

text \<open>\<open>ResponseWriter.Write\<close>: writes the status code 200 first if none was written.\<close>

definition Write :: "exchange \<Rightarrow> string \<Rightarrow> exchange" where
  "Write w bytes = (WriteHeader w 200)\<lparr>body := body w @ bytes\<rparr>"

text \<open>\<open>w.Header().Set(key, value)\<close>.\<close>

definition Header_Set :: "exchange \<Rightarrow> string \<Rightarrow> string \<Rightarrow> exchange" where
  "Header_Set w k v = w\<lparr>header := (header w)(k \<mapsto> v)\<rparr>"

text \<open>\<open>http.Error\<close>: a plain-text reply with the given code and the message on one line.\<close>

definition http_Error :: "exchange \<Rightarrow> string \<Rightarrow> nat \<Rightarrow> exchange" where
  "http_Error w msg code =
     (let w1 = w\<lparr>header := (header w)(''Content-Length'' := None)\<rparr>;
          w2 = Header_Set w1 ''Content-Type'' ''text/plain; charset=utf-8'';
          w3 = Header_Set w2 ''X-Content-Type-Options'' ''nosniff''
      in Write (WriteHeader w3 code) (msg @ [CHR 0x0A]))"

text \<open>
  \<open>io.Copy\<close> from an opened file to the response: the bytes read are written (nothing
  is written when there are none).
\<close>

definition io_Copy :: "exchange \<Rightarrow> string \<Rightarrow> exchange" where
  "io_Copy w bytes = (if bytes = [] then w else Write w bytes)"

definition record_call :: "exchange \<Rightarrow> fs_call \<Rightarrow> exchange" where
  "record_call w c = w\<lparr>calls := calls w @ [c]\<rparr>"

text \<open>
  The reply that \<open>httputil.ReverseProxy\<close> obtains for a request that the director has
  rewritten (the reply of the upstream, or the proxy's own error reply), and its
  copy into the response.
\<close>

record reply =
  reply_status :: nat
  reply_header :: "string \<rightharpoonup> string"
  reply_body :: string

definition send_reply :: "exchange \<Rightarrow> reply \<Rightarrow> exchange" where
  "send_reply w r =
     Write (WriteHeader (w\<lparr>header := header w ++ reply_header r\<rparr>) (reply_status r))
           (reply_body r)"

text \<open>
  What the server takes from outside: the result of \<open>os.Getwd\<close>, \<open>url.Parse\<close> (\<open>None\<close>
  for an error), \<open>mime.TypeByExtension\<close>, and the replies of the upstream servers.
\<close>

record env =
  Getwd :: "string option"
  url_Parse :: "string \<Rightarrow> url option"
  TypeByExtension :: "string \<Rightarrow> string"
  upstream :: "request \<Rightarrow> reply"

section \<open>The server\<close>

subsection \<open>Reverse proxy\<close>

text \<open>The director of \<open>reverseProxy\<close>: the function that rewrites each request.\<close>

definition director :: "url \<Rightarrow> request \<Rightarrow> request" where
  "director destUrl req =
     req\<lparr>URL := (URL req)\<lparr>Scheme := Scheme destUrl,
                             Host := Host destUrl,
                             Path := Path destUrl @ Path (URL req)\<rparr>\<rparr>"

definition reverseProxy :: "env \<Rightarrow> string \<Rightarrow> handler outcome" where
  "reverseProxy e dest =
     (case url_Parse e dest of
        None \<Rightarrow> Err UnableToParseURL
      | Some destUrl \<Rightarrow> Return (ReverseProxy destUrl))"

subsection \<open>Parsing endpoints\<close>

definition NewNotFoundHandler :: "string \<Rightarrow> handler" where
  "NewNotFoundHandler fp = NotFoundFileHandler fp"

definition notFound :: "string \<Rightarrow> handler" where
  "notFound file = NewNotFoundHandler file"

definition newFSHandler :: "env \<Rightarrow> string \<Rightarrow> handler outcome" where
  "newFSHandler e p =
     (case filepath_Abs (Getwd e) p of
        None \<Rightarrow> Panic AbsFailed
      | Some absPath \<Rightarrow> Return (filesystemHandler absPath None))"

definition staticFiles :: "env \<Rightarrow> string \<Rightarrow> handler outcome" where
  "staticFiles e p = newFSHandler e p"

text \<open>Reading \<open>split[1]\<close> panics when the slice has one element only.\<close>

definition parseDest :: "env \<Rightarrow> string \<Rightarrow> handler outcome" where
  "parseDest e dest =
     (let split = SplitAfterN2 dest CHR ''='';
          typeName = Replace1 (split ! 0) CHR ''=''
      in if length split \<le> 1 then Panic (IndexOutOfRange 1 (length split))
         else
           (let argument = split ! 1
            in if typeName = ''proxy'' then
                 (case reverseProxy e argument of
                    Err err \<Rightarrow> Err (UnableToParseProxy err)
                  | r \<Rightarrow> r)
               else if typeName = ''file'' then staticFiles e argument
               else if typeName = ''404'' then Return (notFound argument)
               else Err (UnknownType typeName)))"

definition parseEndpoint :: "env \<Rightarrow> string \<Rightarrow> Endpoint outcome" where
  "parseEndpoint e s =
     (let split = SplitAfterN2 s CHR '':'';
          source = Replace1 (split ! 0) CHR '':''
      in if length split \<le> 1 then Panic (IndexOutOfRange 1 (length split))
         else
           (case parseDest e (split ! 1) of
              Return destObj \<Rightarrow> Return \<lparr>MountPoint = source, Destination = destObj\<rparr>
            | Err err \<Rightarrow> Err err
            | Panic p \<Rightarrow> Panic p))"

text \<open>
  \<open>New\<close>: the loop over the endpoint strings, with the slice built so far. The first
  endpoint that fails to parse ends it.
\<close>

fun New_loop :: "env \<Rightarrow> Endpoint list \<Rightarrow> string list \<Rightarrow> Server outcome" where
  "New_loop e acc [] = Return \<lparr>endpoints = acc\<rparr>"
| "New_loop e acc (s # ss) =
     (case parseEndpoint e s of
        Return parsedEndpoint \<Rightarrow> New_loop e (acc @ [parsedEndpoint]) ss
      | Err err \<Rightarrow> Err (UnableToParseEndpoint err)
      | Panic p \<Rightarrow> Panic p)"

definition New :: "env \<Rightarrow> string list \<Rightarrow> Server outcome" where
  "New e ss = New_loop e [] ss"

subsection \<open>Serving requests\<close>

text \<open>
  The first part of \<open>filesystemHandler.ServeHTTP\<close>: from the request to the absolute
  path of the file, \<open>None\<close> when \<open>filepath.Abs\<close> fails. One leading slash is taken
  off \<open>RequestURI\<close>, and nothing left stands for the directory itself.
\<close>

definition request_uri :: "request \<Rightarrow> string" where
  "request_uri req =
     (let uri = RequestURI req;
          uri = (if HasPrefix uri ''/'' then drop 1 uri else uri)
      in if uri = [] then ''./'' else uri)"

definition absFilePath :: "env \<Rightarrow> string \<Rightarrow> request \<Rightarrow> string option" where
  "absFilePath e root req =
     (let fullPath = filepath_Join [root, ''/'', request_uri req];
          cleanPath = Clean fullPath
      in filepath_Abs (Getwd e) cleanPath)"

text \<open>
  \<open>ServeHTTP\<close> of each handler, from the state of the exchange before the call to the
  state after it. The reverse proxy sends the rewritten request on and copies the reply;
  \<open>LoggingMiddleware\<close> logs and calls the handler it wraps.
\<close>

fun ServeHTTP :: "env \<Rightarrow> filesystem \<Rightarrow> handler \<Rightarrow> request \<Rightarrow> exchange \<Rightarrow> exchange" where
  "ServeHTTP e fs (ReverseProxy destUrl) req w =
     send_reply w (upstream e (director destUrl req))"
| "ServeHTTP e fs (LoggingMiddleware next) req w = ServeHTTP e fs next req w"
| "ServeHTTP e fs (NotFoundFileHandler fp) req w =
     (let w = record_call w (OpenCall fp)
      in case os_Open fs fp of
           None \<Rightarrow> Write w ''unable to get 404 page''
         | Some (ReadAll bytes) \<Rightarrow> io_Copy w bytes
         | Some (ReadError bytes) \<Rightarrow> Write (io_Copy w bytes) ''unable to send 404 page'')"
| "ServeHTTP e fs (filesystemHandler root nf) req w =
     (case absFilePath e root req of
        None \<Rightarrow> http_Error w ''404 - Not found'' 404
      | Some p \<Rightarrow>
          if \<not> HasPrefix p root then http_Error w ''404 - Not found'' 404
          else
            (let w = record_call w (StatCall p)
             in case os_Stat fs p of
                  None \<Rightarrow>
                    (case nf of
                       None \<Rightarrow> http_Error w ''404 - Not found (not found handler missing)'' 404
                     | Some h \<Rightarrow> ServeHTTP e fs h req w)
                | Some isDir \<Rightarrow>
                    (let p = (if isDir then p @ ''/index.html'' else p);
                         w = record_call w (OpenCall p)
                     in case os_Open fs p of
                          None \<Rightarrow>
                            (case nf of
                               None \<Rightarrow> http_Error w ''404 - Not found'' 404
                             | Some h \<Rightarrow> ServeHTTP e fs h req w)
                        | Some (ReadError bytes) \<Rightarrow> http_Error w ''Internal server error'' 500
                        | Some (ReadAll fileBytes) \<Rightarrow>
                            (let contentType = TypeByExtension e (''.'' @ Ext p);
                                 w = Header_Set w ''Content-Type'' contentType
                             in Write w fileBytes))))"

subsection \<open>Assembling the router\<close>

text \<open>
  What \<open>Start\<close> hands to the router before it listens: the handler for requests that
  match no route, and the routes in the order of their registration. The first loop
  makes every \<open>NotFoundFileHandler\<close> endpoint, wrapped by the logging middleware, the
  not-found handler in turn; the second gives that handler to each
  \<open>filesystemHandler\<close> and registers every endpoint but those.
\<close>

record router =
  NotFoundHandler :: "handler option"
  routes :: "(string \<times> handler) list"

fun Start_notFound :: "handler option \<Rightarrow> Endpoint list \<Rightarrow> handler option" where
  "Start_notFound nfh [] = nfh"
| "Start_notFound nfh (ep # eps) =
     (case Destination ep of
        NotFoundFileHandler fp \<Rightarrow> Start_notFound (Some (LoggingMiddleware (Destination ep))) eps
      | _ \<Rightarrow> Start_notFound nfh eps)"

fun Start_routes :: "handler option \<Rightarrow> Endpoint list \<Rightarrow> (string \<times> handler) list" where
  "Start_routes nfh [] = []"
| "Start_routes nfh (ep # eps) =
     (case Destination ep of
        filesystemHandler root nf \<Rightarrow>
          (MountPoint ep, filesystemHandler root nfh) # Start_routes nfh eps
      | NotFoundFileHandler fp \<Rightarrow> Start_routes nfh eps
      | d \<Rightarrow> (MountPoint ep, d) # Start_routes nfh eps)"

definition Start :: "Server \<Rightarrow> router" where
  "Start s =
     (let nfh = Start_notFound None (endpoints s)
      in \<lparr>NotFoundHandler = nfh, routes = Start_routes nfh (endpoints s)\<rparr>)"

section \<open>The server of pkg/server.go\<close>

text \<open>
  The file \<open>pkg/server.go\<close> holds the same server with four differences: the
  endpoints are kept in a map from mount point to handler, the director also sets the
  \<open>Host\<close> of the request, \<open>newFSHandler\<close> keeps the directory as it was given, and
  \<open>filesystemHandler.ServeHTTP\<close> compares the cleaned path (through
  \<open>filepath.FromSlash\<close>, the identity on Unix) with that directory. What follows is
  that file's version of each function that differs.
\<close>

record Server_pkg =
  endpoints_pkg :: "string \<rightharpoonup> handler"

definition director_pkg :: "url \<Rightarrow> request \<Rightarrow> request" where
  "director_pkg destUrl req =
     req\<lparr>URL := (URL req)\<lparr>Scheme := Scheme destUrl,
                             Host := Host destUrl,
                             Path := Path destUrl @ Path (URL req)\<rparr>,
         Req_Host := Host destUrl\<rparr>"

definition newFSHandler_pkg :: "string \<Rightarrow> handler" where
  "newFSHandler_pkg p = filesystemHandler p None"

definition staticFiles_pkg :: "string \<Rightarrow> handler" where
  "staticFiles_pkg p = newFSHandler_pkg p"

definition parseDest_pkg :: "env \<Rightarrow> string \<Rightarrow> handler outcome" where
  "parseDest_pkg e dest =
     (let split = SplitAfterN2 dest CHR ''='';
          typeName = Replace1 (split ! 0) CHR ''=''
      in if length split \<le> 1 then Panic (IndexOutOfRange 1 (length split))
         else
           (let argument = split ! 1
            in if typeName = ''proxy'' then
                 (case reverseProxy e argument of
                    Err err \<Rightarrow> Err (UnableToParseProxy err)
                  | r \<Rightarrow> r)
               else if typeName = ''file'' then Return (staticFiles_pkg argument)
               else if typeName = ''404'' then Return (notFound argument)
               else Err (UnknownType typeName)))"

definition parseEndpoint_pkg :: "env \<Rightarrow> string \<Rightarrow> Endpoint outcome" where
  "parseEndpoint_pkg e s =
     (let split = SplitAfterN2 s CHR '':'';
          source = Replace1 (split ! 0) CHR '':''
      in if length split \<le> 1 then Panic (IndexOutOfRange 1 (length split))
         else
           (case parseDest_pkg e (split ! 1) of
              Return destObj \<Rightarrow> Return \<lparr>MountPoint = source, Destination = destObj\<rparr>
            | Err err \<Rightarrow> Err err
            | Panic p \<Rightarrow> Panic p))"

text \<open>\<open>New\<close>: each parsed endpoint is stored in the map under its mount point.\<close>

fun New_loop_pkg :: "env \<Rightarrow> (string \<rightharpoonup> handler) \<Rightarrow> string list \<Rightarrow> Server_pkg outcome" where
  "New_loop_pkg e m [] = Return \<lparr>endpoints_pkg = m\<rparr>"
| "New_loop_pkg e m (s # ss) =
     (case parseEndpoint_pkg e s of
        Return parsedEndpoint \<Rightarrow>
          New_loop_pkg e (m(MountPoint parsedEndpoint \<mapsto> Destination parsedEndpoint)) ss
      | Err err \<Rightarrow> Err (UnableToParseEndpoint err)
      | Panic p \<Rightarrow> Panic p)"

definition New_pkg :: "env \<Rightarrow> string list \<Rightarrow> Server_pkg outcome" where
  "New_pkg e ss = New_loop_pkg e Map.empty ss"

definition fromSlash :: "string \<Rightarrow> request \<Rightarrow> string" where
  "fromSlash root req =
     (let fullPath = filepath_Join [root, ''/'', request_uri req];
          cleanPath = Clean fullPath
      in cleanPath)"

fun ServeHTTP_pkg :: "env \<Rightarrow> filesystem \<Rightarrow> handler \<Rightarrow> request \<Rightarrow> exchange \<Rightarrow> exchange" where
  "ServeHTTP_pkg e fs (ReverseProxy destUrl) req w =
     send_reply w (upstream e (director_pkg destUrl req))"
| "ServeHTTP_pkg e fs (LoggingMiddleware next) req w = ServeHTTP_pkg e fs next req w"
| "ServeHTTP_pkg e fs (NotFoundFileHandler fp) req w =
     (let w = record_call w (OpenCall fp)
      in case os_Open fs fp of
           None \<Rightarrow> Write w ''unable to get 404 page''
         | Some (ReadAll bytes) \<Rightarrow> io_Copy w bytes
         | Some (ReadError bytes) \<Rightarrow> Write (io_Copy w bytes) ''unable to send 404 page'')"
| "ServeHTTP_pkg e fs (filesystemHandler root nf) req w =
     (let p = fromSlash root req
      in if \<not> HasPrefix p root then http_Error w ''404 - Not found'' 404
         else
           (let w = record_call w (StatCall p)
            in case os_Stat fs p of
                 None \<Rightarrow>
                   (case nf of
                      None \<Rightarrow> http_Error w ''404 - Not found'' 404
                    | Some h \<Rightarrow> ServeHTTP_pkg e fs h req w)
               | Some isDir \<Rightarrow>
                   (let p = (if isDir then p @ ''/index.html'' else p);
                        w = record_call w (OpenCall p)
                    in case os_Open fs p of
                         None \<Rightarrow>
                           (case nf of
                              None \<Rightarrow> http_Error w ''404 - Not found'' 404
                            | Some h \<Rightarrow> ServeHTTP_pkg e fs h req w)
                       | Some (ReadError bytes) \<Rightarrow> http_Error w ''Internal server error'' 500
                       | Some (ReadAll fileBytes) \<Rightarrow>
                           (let contentType = TypeByExtension e (''.'' @ Ext p);
                                w = Header_Set w ''Content-Type'' contentType
                            in Write w fileBytes))))"

text \<open>
  Entries of the table of \<open>mime.TypeByExtension\<close>: those built into Go 1.22. A later
  release of Go, and the host from its own files, add entries (for \<open>.csv\<close>, \<open>.txt\<close>,
  \<open>.ico\<close> and others), which this table lacks. Every key, of this table and of
  those, is one dot followed by a name.
\<close>

definition builtinTypes :: "(string \<times> string) list" where
  "builtinTypes =
     [(''.avif'', ''image/avif''),
      (''.css'', ''text/css; charset=utf-8''),
      (''.gif'', ''image/gif''),
      (''.htm'', ''text/html; charset=utf-8''),
      (''.html'', ''text/html; charset=utf-8''),
      (''.jpeg'', ''image/jpeg''),
      (''.jpg'', ''image/jpeg''),
      (''.js'', ''text/javascript; charset=utf-8''),
      (''.json'', ''application/json''),
      (''.mjs'', ''text/javascript; charset=utf-8''),
      (''.pdf'', ''application/pdf''),
      (''.png'', ''image/png''),
      (''.svg'', ''image/svg+xml''),
      (''.wasm'', ''application/wasm''),
      (''.webp'', ''image/webp''),
      (''.xml'', ''text/xml; charset=utf-8'')]"

text \<open>
  The lookup takes the extension as it is and then with its ASCII letters in lower
  case; an extension that is not in the table has the empty type.
\<close>

definition ascii_lower :: "char \<Rightarrow> char" where
  "ascii_lower c =
     (case map_of (zip ''ABCDEFGHIJKLMNOPQRSTUVWXYZ'' ''abcdefghijklmnopqrstuvwxyz'') c of
        None \<Rightarrow> c
      | Some l \<Rightarrow> l)"

definition builtin_TypeByExtension :: "string \<Rightarrow> string" where
  "builtin_TypeByExtension ext =
     (case map_of builtinTypes ext of
        Some t \<Rightarrow> t
      | None \<Rightarrow>
          (case map_of builtinTypes (map ascii_lower ext) of
             Some t \<Rightarrow> t
           | None \<Rightarrow> []))"

section \<open>A concrete setting\<close>

text \<open>
  A host on which the theorems below are tried: the working directory is
  \<open>/home/dev\<close>; the directory \<open>/srv/dist\<close> holds \<open>index.html\<close> and an empty directory
  \<open>assets\<close>; beside it lie the file \<open>/srv/dist-secret/f\<close> and the page \<open>/srv/404.html\<close>;
  \<open>/srv/broken.html\<close> opens but cannot be read.
\<close>

definition example_fs :: filesystem where
  "example_fs =
     \<lparr>os_Stat = (\<lambda>p. if p = ''/srv/dist'' \<or> p = ''/srv/dist/assets'' \<or> p = ''/srv/dist-secret''
                       then Some True
                     else if p = ''/srv/dist/index.html'' \<or> p = ''/srv/dist-secret/f''
                             \<or> p = ''/srv/404.html'' \<or> p = ''/srv/broken.html''
                       then Some False
                     else None),
      os_Open = (\<lambda>p. if p = ''/srv/dist/index.html'' then Some (ReadAll ''<html>home</html>'')
                     else if p = ''/srv/dist-secret/f'' then Some (ReadAll ''secret'')
                     else if p = ''/srv/404.html'' then Some (ReadAll ''<html>lost</html>'')
                     else if p = ''/srv/broken.html'' then Some (ReadError [])
                     else None)\<rparr>"

text \<open>
  A second host, for a directory given relative to the working directory: \<open>dist\<close>
  holds \<open>index.html\<close>.
\<close>

definition example_fs_relative :: filesystem where
  "example_fs_relative =
     \<lparr>os_Stat = (\<lambda>p. if p = ''dist'' then Some True
                     else if p = ''dist/index.html'' then Some False
                     else None),
      os_Open = (\<lambda>p. if p = ''dist/index.html'' then Some (ReadAll ''<html>home</html>'')
                     else None)\<rparr>"

definition example_upstream :: url where
  "example_upstream =
     \<lparr>Scheme = ''http'', Host = ''127.0.0.1:8080'', Path = ''/base'', RawQuery = []\<rparr>"

definition example_env :: env where
  "example_env =
     \<lparr>Getwd = Some ''/home/dev'',
      url_Parse = (\<lambda>s. if s = ''http://127.0.0.1:8080/base'' then Some example_upstream
                       else None),
      TypeByExtension = builtin_TypeByExtension,
      upstream = (\<lambda>req. \<lparr>reply_status = 200, reply_header = Map.empty,
                             reply_body = Path (URL req)\<rparr>)\<rparr>"

text \<open>
  A \<open>GET\<close> request for a path and a query string, as the Go server parses it. The
  path is one without percent-encoded bytes, so that the decoded \<open>URL.Path\<close> is the
  path as it was sent.
\<close>

definition get_request :: "string \<Rightarrow> string \<Rightarrow> request" where
  "get_request p q =
     \<lparr>Method = ''GET'',
      RequestURI = (if q = [] then p else p @ ''?'' @ q),
      URL = \<lparr>Scheme = [], Host = [], Path = p, RawQuery = q\<rparr>,
      Req_Host = ''localhost:8000''\<rparr>"

text \<open>The path of a call to the file system, and whether a path lies in a directory.\<close>

fun call_path :: "fs_call \<Rightarrow> string" where
  "call_path (StatCall p) = p"
| "call_path (OpenCall p) = p"

definition inside_dir :: "string \<Rightarrow> string \<Rightarrow> bool" where
  "inside_dir dir p = (p = dir \<or> prefix (dir @ ''/'') p)"

text \<open>
  A path element that \<open>Clean\<close> keeps as it is: not empty, not \<open>.\<close>, not \<open>..\<close>, and
  without a separator.
\<close>

definition normal_elem :: "string \<Rightarrow> bool" where
  "normal_elem e = (e \<noteq> [] \<and> e \<noteq> ''.'' \<and> e \<noteq> ''..'' \<and> CHR ''/'' \<notin> set e)"

section \<open>Properties\<close>

subsection \<open>Responses\<close>

lemmas response_defs = record_call_def http_Error_def Write_def WriteHeader_def Header_Set_def
  io_Copy_def send_reply_def status_code_def fresh_def

lemmas path_defs = absFilePath_def fromSlash_def request_uri_def HasPrefix_def filepath_Join_def
  Clean_def clean_step_def filepath_Abs_def Ext_def

lemmas example_defs = example_env_def example_fs_def get_request_def example_upstream_def
  builtin_TypeByExtension_def builtinTypes_def ascii_lower_def

lemma calls_simps [simp]:
  "calls (record_call w c) = calls w @ [c]"
  "calls (http_Error w msg code) = calls w"
  "calls (Write w bytes) = calls w"
  "calls (WriteHeader w code) = calls w"
  "calls (Header_Set w k v) = calls w"
  "calls (io_Copy w bytes) = calls w"
  "calls (send_reply w r) = calls w"
  by (simp_all add: response_defs Let_def)

lemma status_simps [simp]:
  "status (record_call w c) = status w"
  "status (Header_Set w k v) = status w"
  "status (Write w bytes) = Some (status_code w)"
  "status (http_Error w msg code) = Some (case status w of None \<Rightarrow> code | Some c \<Rightarrow> c)"
  "status (io_Copy w bytes) = (if bytes = [] then status w else Some (status_code w))"
  by (auto simp: response_defs Let_def split: option.splits)

lemma body_simps [simp]:
  "body (record_call w c) = body w"
  "body (Header_Set w k v) = body w"
  "body (Write w bytes) = body w @ bytes"
  "body (http_Error w msg code) = body w @ msg @ [CHR 0x0A]"
  "body (io_Copy w bytes) = body w @ bytes"
  by (auto simp: response_defs Let_def split: option.splits)

lemma header_simps [simp]:
  "header (record_call w c) = header w"
  "header (Header_Set w k v) = (header w)(k \<mapsto> v)"
  "header (Write w bytes) = header w"
  "header (io_Copy w bytes) = header w"
  by (auto simp: response_defs Let_def split: option.splits)

lemma fresh_simps [simp]:
  "status fresh = None" "body fresh = []" "calls fresh = []" "header fresh = Map.empty"
  by (simp_all add: fresh_def)

lemma status_code_simps [simp]:
  "status w = Some c \<Longrightarrow> status_code w = c"
  "status w = None \<Longrightarrow> status_code w = 200"
  by (simp_all add: status_code_def)

subsection \<open>The calls of a handler are added to those made before\<close>

lemma calls_extend:
  "prefix (calls w) (calls (ServeHTTP e fs h req w))"
proof (induction e fs h req w rule: ServeHTTP.induct)
  case (1 e fs destUrl req w)
  then show ?case by simp
next
  case (2 e fs "next" req w)
  then show ?case by simp
next
  case (3 e fs fp req w)
  then show ?case by (simp add: Let_def split: option.splits read_result.splits)
next
  case (4 e fs root nf req w)
  show ?case
  proof (cases "absFilePath e root req")
    case None
    then show ?thesis by simp
  next
    case (Some p)
    note abs = this
    show ?thesis
    proof (cases "HasPrefix p root")
      case False
      with abs show ?thesis by simp
    next
      case True
      define w1 where "w1 = record_call w (StatCall p)"
      have w1: "prefix (calls w) (calls w1)" by (simp add: w1_def)
      show ?thesis
      proof (cases "os_Stat fs p")
        case None
        show ?thesis
        proof (cases nf)
          case nfNone: None
          with abs True None show ?thesis by (simp add: Let_def)
        next
          case (Some h)
          from "4.IH"(1)[OF abs _ w1_def None Some] True
          have "prefix (calls w1) (calls (ServeHTTP e fs h req w1))" by simp
          with w1 have "prefix (calls w) (calls (ServeHTTP e fs h req w1))"
            by (rule prefix_order.trans)
          with abs True None Some show ?thesis by (simp add: w1_def)
        qed
      next
        case (Some isDir)
        define p2 where "p2 = (if isDir then p @ ''/index.html'' else p)"
        define w2 where "w2 = record_call w1 (OpenCall p2)"
        have w2: "prefix (calls w) (calls w2)" by (simp add: w2_def w1_def)
        show ?thesis
        proof (cases "os_Open fs p2")
          case None
          show ?thesis
          proof (cases nf)
            case nfNone: None
            with abs True Some None show ?thesis
              by (simp add: Let_def p2_def w2_def w1_def)
          next
            case nfSome: (Some h)
            from "4.IH"(2)[OF abs _ w1_def Some p2_def w2_def None nfSome] True
            have "prefix (calls w2) (calls (ServeHTTP e fs h req w2))" by simp
            with w2 have "prefix (calls w) (calls (ServeHTTP e fs h req w2))"
              by (rule prefix_order.trans)
            with abs True Some None nfSome show ?thesis
              by (simp add: w1_def w2_def p2_def Let_def)
          qed
        next
          case rd: (Some r)
          with abs True Some show ?thesis
            by (cases r) (simp_all add: Let_def p2_def w2_def w1_def)
        qed
      qed
    qed
  qed
qed

lemma calls_extend_from:
  "prefix cs (calls w) \<Longrightarrow> prefix cs (calls (ServeHTTP e fs h req w))"
  using calls_extend prefix_order.trans by blast

lemma guard_passes_stat:
  assumes "absFilePath e root req = Some p" and "HasPrefix p root"
  shows "prefix (calls w @ [StatCall p]) (calls (ServeHTTP e fs (filesystemHandler root nf) req w))"
  using assms
  by (auto simp: Let_def split: option.splits read_result.splits intro!: calls_extend_from)

lemma calls_extend_pkg:
  "prefix (calls w) (calls (ServeHTTP_pkg e fs h req w))"
proof (induction e fs h req w rule: ServeHTTP_pkg.induct)
  case (1 e fs destUrl req w)
  then show ?case by simp
next
  case (2 e fs "next" req w)
  then show ?case by simp
next
  case (3 e fs fp req w)
  then show ?case by (simp add: Let_def split: option.splits read_result.splits)
next
  case (4 e fs root nf req w)
  let ?p = "fromSlash root req"
  show ?case
  proof (cases "HasPrefix ?p root")
    case False
    then show ?thesis by (simp add: Let_def)
  next
    case True
    define w1 where "w1 = record_call w (StatCall ?p)"
    have w1: "prefix (calls w) (calls w1)" by (simp add: w1_def)
    show ?thesis
    proof (cases "os_Stat fs ?p")
      case None
      show ?thesis
      proof (cases nf)
        case nfNone: None
        with True None show ?thesis by (simp add: Let_def)
      next
        case (Some h)
        from "4.IH"(1)[OF refl _ w1_def None Some] True
        have "prefix (calls w1) (calls (ServeHTTP_pkg e fs h req w1))" by simp
        with w1 have "prefix (calls w) (calls (ServeHTTP_pkg e fs h req w1))"
          by (rule prefix_order.trans)
        with True None Some show ?thesis by (simp add: w1_def Let_def)
      qed
    next
      case (Some isDir)
      define p2 where "p2 = (if isDir then ?p @ ''/index.html'' else ?p)"
      define w2 where "w2 = record_call w1 (OpenCall p2)"
      have w2: "prefix (calls w) (calls w2)" by (simp add: w2_def w1_def)
      show ?thesis
      proof (cases "os_Open fs p2")
        case None
        show ?thesis
        proof (cases nf)
          case nfNone: None
          with True Some None show ?thesis
            by (simp add: Let_def p2_def w2_def w1_def)
        next
          case nfSome: (Some h)
          from "4.IH"(2)[OF refl _ w1_def Some p2_def w2_def None nfSome] True
          have "prefix (calls w2) (calls (ServeHTTP_pkg e fs h req w2))" by simp
          with w2 have "prefix (calls w) (calls (ServeHTTP_pkg e fs h req w2))"
            by (rule prefix_order.trans)
          with True Some None nfSome show ?thesis
            by (simp add: w1_def w2_def p2_def Let_def)
        qed
      next
        case rd: (Some r)
        with True Some show ?thesis
          by (cases r) (simp_all add: Let_def p2_def w2_def w1_def)
      qed
    qed
  qed
qed

lemma calls_extend_from_pkg:
  "prefix cs (calls w) \<Longrightarrow> prefix cs (calls (ServeHTTP_pkg e fs h req w))"
  using calls_extend_pkg prefix_order.trans by blast

lemma guard_passes_stat_pkg:
  assumes "HasPrefix (fromSlash root req) root"
  shows "prefix (calls w @ [StatCall (fromSlash root req)])
           (calls (ServeHTTP_pkg e fs (filesystemHandler root nf) req w))"
  using assms
  by (auto simp: Let_def split: option.splits read_result.splits intro!: calls_extend_from_pkg)

subsection \<open>The traversal guard\<close>

lemma guard_rejects:
  assumes "absFilePath e root req = Some p" and "\<not> HasPrefix p root"
  shows "ServeHTTP e fs (filesystemHandler root nf) req w = http_Error w ''404 - Not found'' 404"
  using assms by simp

lemma guard_rejects_pkg:
  assumes "\<not> HasPrefix (fromSlash root req) root"
  shows "ServeHTTP_pkg e fs (filesystemHandler root nf) req w
         = http_Error w ''404 - Not found'' 404"
  using assms by (simp add: Let_def)

lemma own_calls_prefixed:
  "\<forall>c \<in> set (calls (ServeHTTP e fs (filesystemHandler root None) req fresh)).
     HasPrefix (call_path c) root"
  by (auto simp: Let_def HasPrefix_def split: option.splits read_result.splits)

lemma own_calls_prefixed_pkg:
  "\<forall>c \<in> set (calls (ServeHTTP_pkg e fs (filesystemHandler root None) req fresh)).
     HasPrefix (call_path c) root"
  by (auto simp: Let_def HasPrefix_def split: option.splits read_result.splits)

text \<open>
  What the guard does ensure. If the cleaned absolute path of a request does not have
  the directory of the handler as a string prefix, the reply is 404 and the handler
  makes no call to \<open>os.Stat\<close> or \<open>os.Open\<close>; this holds in both versions of the
  handler. A handler without a not-found handler calls \<open>os.Stat\<close> and \<open>os.Open\<close> only
  on paths that have its directory as a string prefix.
\<close>

lemma guard_rejects_without_prefix:
  "(absFilePath e root req = Some p \<and> \<not> HasPrefix p root \<longrightarrow>
      status_code (ServeHTTP e fs (filesystemHandler root nf) req fresh) = 404
      \<and> calls (ServeHTTP e fs (filesystemHandler root nf) req fresh) = [])
   \<and> (\<not> HasPrefix (fromSlash root req) root \<longrightarrow>
      status_code (ServeHTTP_pkg e fs (filesystemHandler root nf) req fresh) = 404
      \<and> calls (ServeHTTP_pkg e fs (filesystemHandler root nf) req fresh) = [])
   \<and> (\<forall>c \<in> set (calls (ServeHTTP e fs (filesystemHandler root None) req fresh)).
        HasPrefix (call_path c) root)
   \<and> (\<forall>c \<in> set (calls (ServeHTTP_pkg e fs (filesystemHandler root None) req fresh)).
        HasPrefix (call_path c) root)"
proof (intro conjI impI)
  assume "absFilePath e root req = Some p \<and> \<not> HasPrefix p root"
  then have r: "ServeHTTP e fs (filesystemHandler root nf) req fresh
                = http_Error fresh ''404 - Not found'' 404"
    using guard_rejects by blast
  show "status_code (ServeHTTP e fs (filesystemHandler root nf) req fresh) = 404"
    unfolding r by simp
  show "calls (ServeHTTP e fs (filesystemHandler root nf) req fresh) = []"
    unfolding r by simp
next
  assume "\<not> HasPrefix (fromSlash root req) root"
  then have r: "ServeHTTP_pkg e fs (filesystemHandler root nf) req fresh
                = http_Error fresh ''404 - Not found'' 404"
    by (rule guard_rejects_pkg)
  show "status_code (ServeHTTP_pkg e fs (filesystemHandler root nf) req fresh) = 404"
    unfolding r by simp
  show "calls (ServeHTTP_pkg e fs (filesystemHandler root nf) req fresh) = []"
    unfolding r by simp
next
  show "\<forall>c \<in> set (calls (ServeHTTP e fs (filesystemHandler root None) req fresh)).
          HasPrefix (call_path c) root"
    by (rule own_calls_prefixed)
  show "\<forall>c \<in> set (calls (ServeHTTP_pkg e fs (filesystemHandler root None) req fresh)).
          HasPrefix (call_path c) root"
    by (rule own_calls_prefixed_pkg)
qed

lemma guard_rejects_without_prefix_example:
  "absFilePath example_env ''/srv/dist'' (get_request ''/../../etc/passwd'' [])
     = Some ''/etc/passwd''
   \<and> \<not> HasPrefix ''/etc/passwd'' ''/srv/dist''
   \<and> status_code (ServeHTTP example_env example_fs (filesystemHandler ''/srv/dist'' None)
         (get_request ''/../../etc/passwd'' []) fresh) = 404
   \<and> calls (ServeHTTP example_env example_fs (filesystemHandler ''/srv/dist'' None)
         (get_request ''/../../etc/passwd'' []) fresh) = []
   \<and> \<not> HasPrefix (fromSlash ''/srv/dist'' (get_request ''/../../etc/passwd'' [])) ''/srv/dist''
   \<and> status_code (ServeHTTP_pkg example_env example_fs (filesystemHandler ''/srv/dist'' None)
         (get_request ''/../../etc/passwd'' []) fresh) = 404
   \<and> calls (ServeHTTP_pkg example_env example_fs (filesystemHandler ''/srv/dist'' None)
         (get_request ''/../../etc/passwd'' []) fresh) = []
   \<and> calls (ServeHTTP example_env example_fs (filesystemHandler ''/srv/dist'' None)
         (get_request ''/index.html'' []) fresh)
       = [StatCall ''/srv/dist/index.html'', OpenCall ''/srv/dist/index.html'']
   \<and> HasPrefix ''/srv/dist/index.html'' ''/srv/dist''"
proof -
  let ?bad = "get_request ''/../../etc/passwd'' []"
  let ?good = "get_request ''/index.html'' []"
  have h1: "absFilePath example_env ''/srv/dist'' ?bad = Some ''/etc/passwd''"
    by (simp add: path_defs example_defs)
  have h2: "\<not> HasPrefix ''/etc/passwd'' ''/srv/dist''"
    by (simp add: HasPrefix_def)
  have h3: "\<not> HasPrefix (fromSlash ''/srv/dist'' ?bad) ''/srv/dist''"
    by (simp add: path_defs example_defs)
  have c: "calls (ServeHTTP example_env example_fs (filesystemHandler ''/srv/dist'' None)
             ?good fresh)
           = [StatCall ''/srv/dist/index.html'', OpenCall ''/srv/dist/index.html'']"
    by (simp add: path_defs example_defs Let_def)
  note bad = guard_rejects_without_prefix[where e = example_env and fs = example_fs
      and root = "''/srv/dist''" and nf = None and req = ?bad and p = "''/etc/passwd''"]
  note good = guard_rejects_without_prefix[where e = example_env and fs = example_fs
      and root = "''/srv/dist''" and nf = None and req = ?good and p = "''/etc/passwd''"]
  from good c have "HasPrefix (call_path (OpenCall ''/srv/dist/index.html'')) ''/srv/dist''"
    by simp
  with bad h1 h2 h3 c show ?thesis by simp
qed

text \<open>
  C1, on the code. The guard asks for the directory as a string prefix, not as a
  directory: no separator has to follow the prefix. For the directory \<open>/srv/dist\<close>
  the request \<open>/../dist-secret/f\<close> is cleaned to \<open>/srv/dist-secret/f\<close>, a file outside
  the directory; the handler calls \<open>os.Stat\<close> and \<open>os.Open\<close> on it and replies 200
  with its bytes, where a 404 with no file opened is due. Both versions of the handler
  do so. The traversal may stand in the query string, behind a path that has none:
  \<open>/?/../../dist-secret/f\<close> has the path \<open>/\<close> and is answered with the same file.
\<close>

theorem C1_file_outside_root_opened:
  "\<not> inside_dir ''/srv/dist'' ''/srv/dist-secret/f''
   \<and> calls (ServeHTTP example_env example_fs (filesystemHandler ''/srv/dist'' None)
        (get_request ''/../dist-secret/f'' []) fresh)
      = [StatCall ''/srv/dist-secret/f'', OpenCall ''/srv/dist-secret/f'']
   \<and> status_code (ServeHTTP example_env example_fs (filesystemHandler ''/srv/dist'' None)
        (get_request ''/../dist-secret/f'' []) fresh) = 200
   \<and> body (ServeHTTP example_env example_fs (filesystemHandler ''/srv/dist'' None)
        (get_request ''/../dist-secret/f'' []) fresh) = ''secret''
   \<and> calls (ServeHTTP_pkg example_env example_fs (filesystemHandler ''/srv/dist'' None)
        (get_request ''/../dist-secret/f'' []) fresh)
      = [StatCall ''/srv/dist-secret/f'', OpenCall ''/srv/dist-secret/f'']
   \<and> status_code (ServeHTTP_pkg example_env example_fs (filesystemHandler ''/srv/dist'' None)
        (get_request ''/../dist-secret/f'' []) fresh) = 200
   \<and> body (ServeHTTP_pkg example_env example_fs (filesystemHandler ''/srv/dist'' None)
        (get_request ''/../dist-secret/f'' []) fresh) = ''secret''
   \<and> Path (URL (get_request ''/'' ''/../../dist-secret/f'')) = ''/''
   \<and> RequestURI (get_request ''/'' ''/../../dist-secret/f'') = ''/?/../../dist-secret/f''
   \<and> calls (ServeHTTP example_env example_fs (filesystemHandler ''/srv/dist'' None)
        (get_request ''/'' ''/../../dist-secret/f'') fresh)
      = [StatCall ''/srv/dist-secret/f'', OpenCall ''/srv/dist-secret/f'']
   \<and> body (ServeHTTP example_env example_fs (filesystemHandler ''/srv/dist'' None)
        (get_request ''/'' ''/../../dist-secret/f'') fresh) = ''secret''
   \<and> body (ServeHTTP_pkg example_env example_fs (filesystemHandler ''/srv/dist'' None)
        (get_request ''/'' ''/../../dist-secret/f'') fresh) = ''secret''"
  by (simp add: path_defs example_defs inside_dir_def Let_def)

subsection \<open>What the guard lets through\<close>

lemma stat_iff_guard:
  assumes "absFilePath e root req = Some p"
  shows "StatCall p \<in> set (calls (ServeHTTP e fs (filesystemHandler root nf) req fresh))
         \<longleftrightarrow> HasPrefix p root"
proof (cases "HasPrefix p root")
  case False
  with assms show ?thesis by simp
next
  case True
  from guard_passes_stat[OF assms True, where w = fresh and fs = fs and nf = nf]
  have "prefix [StatCall p] (calls (ServeHTTP e fs (filesystemHandler root nf) req fresh))"
    by simp
  then have "StatCall p \<in> set (calls (ServeHTTP e fs (filesystemHandler root nf) req fresh))"
    by (auto simp: prefix_def)
  with True show ?thesis by simp
qed

lemma stat_iff_guard_pkg:
  "StatCall (fromSlash root req)
     \<in> set (calls (ServeHTTP_pkg e fs (filesystemHandler root nf) req fresh))
   \<longleftrightarrow> HasPrefix (fromSlash root req) root"
proof (cases "HasPrefix (fromSlash root req) root")
  case False
  then show ?thesis by (simp add: Let_def)
next
  case True
  from guard_passes_stat_pkg[OF True, where w = fresh and e = e and fs = fs and nf = nf]
  have "prefix [StatCall (fromSlash root req)]
          (calls (ServeHTTP_pkg e fs (filesystemHandler root nf) req fresh))"
    by simp
  then have "StatCall (fromSlash root req)
               \<in> set (calls (ServeHTTP_pkg e fs (filesystemHandler root nf) req fresh))"
    by (auto simp: prefix_def)
  with True show ?thesis by simp
qed

text \<open>
  C10. The handler goes on to \<open>os.Stat\<close> exactly when the cleaned absolute path has
  its directory as a string prefix; no separator is asked for after the prefix. So
  with the directory \<open>/srv/dist\<close> the request \<open>/../dist-secret/f\<close>, whose path is
  \<open>/srv/dist-secret/f\<close> and lies outside the directory, passes the guard and is
  answered with that file and status 200. Both versions of the handler do so.
\<close>

theorem C10_guard_is_string_prefix:
  "(absFilePath e root req = Some p \<longrightarrow>
      (StatCall p \<in> set (calls (ServeHTTP e fs (filesystemHandler root nf) req fresh))
       \<longleftrightarrow> HasPrefix p root))
   \<and> (StatCall (fromSlash root req)
         \<in> set (calls (ServeHTTP_pkg e fs (filesystemHandler root nf) req fresh))
       \<longleftrightarrow> HasPrefix (fromSlash root req) root)
   \<and> absFilePath example_env ''/srv/dist'' (get_request ''/../dist-secret/f'' [])
       = Some ''/srv/dist-secret/f''
   \<and> fromSlash ''/srv/dist'' (get_request ''/../dist-secret/f'' []) = ''/srv/dist-secret/f''
   \<and> HasPrefix ''/srv/dist-secret/f'' ''/srv/dist''
   \<and> \<not> inside_dir ''/srv/dist'' ''/srv/dist-secret/f''
   \<and> status_code (ServeHTTP example_env example_fs (filesystemHandler ''/srv/dist'' None)
         (get_request ''/../dist-secret/f'' []) fresh) = 200
   \<and> body (ServeHTTP example_env example_fs (filesystemHandler ''/srv/dist'' None)
         (get_request ''/../dist-secret/f'' []) fresh) = ''secret''
   \<and> status_code (ServeHTTP_pkg example_env example_fs (filesystemHandler ''/srv/dist'' None)
         (get_request ''/../dist-secret/f'' []) fresh) = 200
   \<and> body (ServeHTTP_pkg example_env example_fs (filesystemHandler ''/srv/dist'' None)
         (get_request ''/../dist-secret/f'' []) fresh) = ''secret''"
proof -
  let ?req = "get_request ''/../dist-secret/f'' []"
  have a: "absFilePath example_env ''/srv/dist'' ?req = Some ''/srv/dist-secret/f''"
    by (simp add: path_defs example_defs)
  have f: "fromSlash ''/srv/dist'' ?req = ''/srv/dist-secret/f''"
    by (simp add: path_defs example_defs)
  have p: "HasPrefix ''/srv/dist-secret/f'' ''/srv/dist''"
    by (simp add: HasPrefix_def)
  have i: "\<not> inside_dir ''/srv/dist'' ''/srv/dist-secret/f''"
    by (simp add: inside_dir_def)
  have s: "os_Stat example_fs ''/srv/dist-secret/f'' = Some False"
    by (simp add: example_fs_def)
  have d: "os_Open example_fs ''/srv/dist-secret/f'' = Some (ReadAll ''secret'')"
    by (simp add: example_fs_def)
  have r1: "status_code (ServeHTTP example_env example_fs (filesystemHandler ''/srv/dist'' None)
              ?req fresh) = 200"
       "body (ServeHTTP example_env example_fs (filesystemHandler ''/srv/dist'' None)
              ?req fresh) = ''secret''"
    using a p s d by (simp_all add: Let_def)
  have r2: "status_code (ServeHTTP_pkg example_env example_fs
              (filesystemHandler ''/srv/dist'' None) ?req fresh) = 200"
       "body (ServeHTTP_pkg example_env example_fs (filesystemHandler ''/srv/dist'' None)
              ?req fresh) = ''secret''"
    using f p s d by (simp_all add: Let_def)
  show ?thesis
    using stat_iff_guard[where e = e and root = root and req = req and p = p and fs = fs and nf = nf]
      stat_iff_guard_pkg[where e = e and root = root and req = req and fs = fs and nf = nf]
      a f p i r1 r2
    by (intro conjI impI) simp_all
qed

theorem C10_guard_is_string_prefix_witness:
  "absFilePath example_env ''/srv/dist'' (get_request ''/../dist-secret/f'' [])
     = Some ''/srv/dist-secret/f''
   \<and> HasPrefix ''/srv/dist-secret/f'' ''/srv/dist''
   \<and> StatCall ''/srv/dist-secret/f''
        \<in> set (calls (ServeHTTP example_env example_fs (filesystemHandler ''/srv/dist'' None)
                  (get_request ''/../dist-secret/f'' []) fresh))"
proof -
  note t = C10_guard_is_string_prefix[where e = example_env and fs = example_fs
      and root = "''/srv/dist''" and nf = None and req = "get_request ''/../dist-secret/f'' []"
      and p = "''/srv/dist-secret/f''"]
  from t show ?thesis by blast
qed

subsection \<open>Parsing endpoints\<close>

lemma SplitAfterN2_none:
  "sep \<notin> set s \<Longrightarrow> SplitAfterN2 s sep = [s]"
  by (simp add: SplitAfterN2_def)

lemma SplitAfterN2_first:
  assumes "sep \<notin> set m"
  shows "SplitAfterN2 (m @ sep # rest) sep = [m @ [sep], rest]"
proof -
  from assms have "takeWhile (\<lambda>c. c \<noteq> sep) (m @ sep # rest) = m"
    by (induction m) auto
  moreover from assms have "dropWhile (\<lambda>c. c \<noteq> sep) (m @ sep # rest) = sep # rest"
    by (induction m) auto
  ultimately show ?thesis by (simp add: SplitAfterN2_def)
qed

lemma Replace1_last:
  "sep \<notin> set m \<Longrightarrow> Replace1 (m @ [sep]) sep = m"
  by (simp add: Replace1_def remove1_append)

lemma parseEndpoint_no_colon:
  "CHR '':'' \<notin> set s \<Longrightarrow> parseEndpoint e s = Panic (IndexOutOfRange 1 1)"
  by (simp add: parseEndpoint_def SplitAfterN2_none Let_def)

lemma parseDest_no_equals:
  "CHR ''='' \<notin> set d \<Longrightarrow> parseDest e d = Panic (IndexOutOfRange 1 1)"
  by (simp add: parseDest_def SplitAfterN2_none Let_def)

lemma parseEndpoint_split:
  assumes "CHR '':'' \<notin> set m"
  shows "parseEndpoint e (m @ CHR '':'' # d)
         = (case parseDest e d of
              Return destObj \<Rightarrow> Return \<lparr>MountPoint = m, Destination = destObj\<rparr>
            | Err err \<Rightarrow> Err err
            | Panic p \<Rightarrow> Panic p)"
  using assms
  by (simp add: parseEndpoint_def SplitAfterN2_first Replace1_last Let_def
      split: outcome.splits)

lemma parseDest_split:
  assumes "CHR ''='' \<notin> set k"
  shows "parseDest e (k @ CHR ''='' # a)
         = (if k = ''proxy'' then
              (case reverseProxy e a of Err err \<Rightarrow> Err (UnableToParseProxy err) | r \<Rightarrow> r)
            else if k = ''file'' then staticFiles e a
            else if k = ''404'' then Return (notFound a)
            else Err (UnknownType k))"
  using assms by (simp add: parseDest_def SplitAfterN2_first Replace1_last Let_def)

text \<open>
  C2, on the code. An endpoint string without a colon makes \<open>parseEndpoint\<close> panic
  on \<open>split[1]\<close>, and so does a string whose rest after the first colon has no equals
  sign, in \<open>parseDest\<close>; neither returns an error.
\<close>

theorem C2_missing_separator_panics:
  "(CHR '':'' \<notin> set s \<longrightarrow> parseEndpoint e s = Panic (IndexOutOfRange 1 1))
   \<and> (CHR ''='' \<notin> set d \<longrightarrow> parseDest e d = Panic (IndexOutOfRange 1 1))
   \<and> (CHR '':'' \<notin> set m \<and> CHR ''='' \<notin> set d \<longrightarrow>
        parseEndpoint e (m @ '':'' @ d) = Panic (IndexOutOfRange 1 1))"
  by (simp add: parseEndpoint_no_colon parseDest_no_equals parseEndpoint_split)

theorem C2_missing_separator_panics_witness:
  "CHR '':'' \<notin> set ''/api''
   \<and> parseEndpoint example_env ''/api'' = Panic (IndexOutOfRange 1 1)
   \<and> CHR ''='' \<notin> set ''proxy''
   \<and> parseDest example_env ''proxy'' = Panic (IndexOutOfRange 1 1)
   \<and> parseEndpoint example_env ''/api:proxy'' = Panic (IndexOutOfRange 1 1)"
  using C2_missing_separator_panics[where s = "''/api''" and e = example_env
      and d = "''proxy''" and m = "''/api''"]
  by simp

text \<open>
  C8. For a mount point \<open>m\<close> without a colon, a kind \<open>k\<close> among \<open>proxy\<close>, \<open>file\<close> and
  \<open>404\<close>, and any argument \<open>a\<close>, parsing \<open>m:k=a\<close> cuts at the first colon and the first
  equals sign only: the endpoint has the mount point \<open>m\<close>, and the whole of \<open>a\<close>, with
  any colons and equals signs of its own, goes to \<open>url.Parse\<close>, to \<open>filepath.Abs\<close> or
  into the not-found handler. The result is a function of the string (and of the
  host), and where the working directory can be read it is an endpoint or an error.
\<close>

theorem C8_parse_first_occurrence:
  assumes "CHR '':'' \<notin> set m" and "k = ''proxy'' \<or> k = ''file'' \<or> k = ''404''"
  shows "parseEndpoint e (m @ '':'' @ k @ ''='' @ a)
         = (if k = ''proxy'' then
              (case url_Parse e a of
                 None \<Rightarrow> Err (UnableToParseProxy UnableToParseURL)
               | Some destUrl \<Rightarrow> Return \<lparr>MountPoint = m, Destination = ReverseProxy destUrl\<rparr>)
            else if k = ''file'' then
              (case filepath_Abs (Getwd e) a of
                 None \<Rightarrow> Panic AbsFailed
               | Some absPath \<Rightarrow>
                   Return \<lparr>MountPoint = m, Destination = filesystemHandler absPath None\<rparr>)
            else Return \<lparr>MountPoint = m, Destination = NotFoundFileHandler a\<rparr>)
         \<and> (Getwd e \<noteq> None \<longrightarrow>
              (\<exists>ep. parseEndpoint e (m @ '':'' @ k @ ''='' @ a) = Return ep \<and> MountPoint ep = m)
              \<or> (k = ''proxy'' \<and> url_Parse e a = None
                  \<and> parseEndpoint e (m @ '':'' @ k @ ''='' @ a)
                     = Err (UnableToParseProxy UnableToParseURL)))"
proof -
  from assms(2) have k: "CHR ''='' \<notin> set k" by auto
  have eq: "parseEndpoint e (m @ '':'' @ k @ ''='' @ a)
         = (if k = ''proxy'' then
              (case url_Parse e a of
                 None \<Rightarrow> Err (UnableToParseProxy UnableToParseURL)
               | Some destUrl \<Rightarrow> Return \<lparr>MountPoint = m, Destination = ReverseProxy destUrl\<rparr>)
            else if k = ''file'' then
              (case filepath_Abs (Getwd e) a of
                 None \<Rightarrow> Panic AbsFailed
               | Some absPath \<Rightarrow>
                   Return \<lparr>MountPoint = m, Destination = filesystemHandler absPath None\<rparr>)
            else Return \<lparr>MountPoint = m, Destination = NotFoundFileHandler a\<rparr>)"
    using assms(2)
    by (auto simp: parseEndpoint_split[OF assms(1)] parseDest_split[OF k] reverseProxy_def
        staticFiles_def newFSHandler_def notFound_def NewNotFoundHandler_def
        split: option.splits)
  have tot: "(\<exists>ep. parseEndpoint e (m @ '':'' @ k @ ''='' @ a) = Return ep \<and> MountPoint ep = m)
         \<or> (k = ''proxy'' \<and> url_Parse e a = None
             \<and> parseEndpoint e (m @ '':'' @ k @ ''='' @ a)
                = Err (UnableToParseProxy UnableToParseURL))"
    if "Getwd e \<noteq> None"
  proof -
    from that have "filepath_Abs (Getwd e) a \<noteq> None"
      by (auto simp: filepath_Abs_def)
    then show ?thesis
      unfolding eq using assms(2) by (auto split: option.splits)
  qed
  from eq tot show ?thesis by blast
qed

theorem C8_parse_first_occurrence_witness:
  "CHR '':'' \<notin> set ''/api''
   \<and> parseEndpoint example_env ''/api:proxy=http://127.0.0.1:8080/base''
       = Return \<lparr>MountPoint = ''/api'', Destination = ReverseProxy example_upstream\<rparr>
   \<and> parseEndpoint example_env ''404:404=./a=b:c''
       = Return \<lparr>MountPoint = ''404'', Destination = NotFoundFileHandler ''./a=b:c''\<rparr>"
proof -
  have h: "CHR '':'' \<notin> set ''/api''" "CHR '':'' \<notin> set ''404''" by simp_all
  from C8_parse_first_occurrence[where e = example_env and m = "''/api''" and k = "''proxy''"
      and a = "''http://127.0.0.1:8080/base''", OF h(1)]
  have p: "parseEndpoint example_env ''/api:proxy=http://127.0.0.1:8080/base''
       = Return \<lparr>MountPoint = ''/api'', Destination = ReverseProxy example_upstream\<rparr>"
    by (simp add: example_env_def)
  from C8_parse_first_occurrence[where e = example_env and m = "''404''" and k = "''404''"
      and a = "''./a=b:c''", OF h(2)]
  have q: "parseEndpoint example_env ''404:404=./a=b:c''
       = Return \<lparr>MountPoint = ''404'', Destination = NotFoundFileHandler ''./a=b:c''\<rparr>"
    by simp
  from h p q show ?thesis by simp
qed

subsection \<open>The reverse proxy\<close>

text \<open>
  C5 (as amended). The director of a proxy for the destination URL \<open>u\<close> gives each
  request the scheme and the host of \<open>u\<close> and the path of \<open>u\<close> followed, with
  nothing put between them and nothing taken away, by the path of the request; the
  query string and the method stay. The proxy sends on the request so rewritten.
  With the destination path \<open>/base\<close> the request \<open>/x\<close> goes out as \<open>/base/x\<close>, the
  slash being that of the request path. The director of \<open>pkg/server.go\<close> does the
  same and sets the \<open>Host\<close> field of the request as well.
\<close>

theorem C5_director_concatenates:
  "Scheme (URL (director u req)) = Scheme u
   \<and> Host (URL (director u req)) = Host u
   \<and> Path (URL (director u req)) = Path u @ Path (URL req)
   \<and> RawQuery (URL (director u req)) = RawQuery (URL req)
   \<and> Method (director u req) = Method req
   \<and> Scheme (URL (director_pkg u req)) = Scheme u
   \<and> Host (URL (director_pkg u req)) = Host u
   \<and> Path (URL (director_pkg u req)) = Path u @ Path (URL req)
   \<and> Req_Host (director_pkg u req) = Host u
   \<and> ServeHTTP e fs (ReverseProxy u) req w = send_reply w (upstream e (director u req))
   \<and> ServeHTTP_pkg e fs (ReverseProxy u) req w = send_reply w (upstream e (director_pkg u req))
   \<and> reverseProxy example_env ''http://127.0.0.1:8080/base'' = Return (ReverseProxy example_upstream)
   \<and> Path (URL (director example_upstream (get_request ''/x'' []))) = ''/base/x''
   \<and> Path (URL (director_pkg example_upstream (get_request ''/x'' []))) = ''/base/x''"
  by (simp add: director_def director_pkg_def reverseProxy_def example_defs)

theorem C5_director_concatenates_witness:
  "body (ServeHTTP example_env example_fs (ReverseProxy example_upstream)
      (get_request ''/x'' []) fresh) = ''/base/x''
   \<and> Host (URL (director example_upstream (get_request ''/x'' []))) = ''127.0.0.1:8080''
   \<and> Scheme (URL (director example_upstream (get_request ''/x'' []))) = ''http''"
  using C5_director_concatenates[where u = example_upstream and req = "get_request ''/x'' []"
      and e = example_env and fs = example_fs and w = fresh]
  by (simp add: example_defs send_reply_def Write_def WriteHeader_def director_def)

text \<open>
  C5 fails as it is stated: for the destination \<open>http://127.0.0.1:8080/base\<close> and the
  request \<open>/x\<close> the outbound path is \<open>/base/x\<close>, not \<open>/basex\<close>.
\<close>

theorem C5_counterexample:
  "Path (URL (director example_upstream (get_request ''/x'' []))) \<noteq> ''/basex''
   \<and> Path (URL (director_pkg example_upstream (get_request ''/x'' []))) \<noteq> ''/basex''
   \<and> Path example_upstream = ''/base''
   \<and> Path (URL (get_request ''/x'' [])) = ''/x''"
  by (simp add: director_def director_pkg_def example_defs)

subsection \<open>The endpoints of a server\<close>

lemma New_loop_order:
  "New_loop e acc ss = Return s \<Longrightarrow>
   \<exists>eps. endpoints s = acc @ eps \<and> list_all2 (\<lambda>x ep. parseEndpoint e x = Return ep) ss eps"
proof (induction ss arbitrary: acc)
  case Nil
  then show ?case by auto
next
  case (Cons x xs)
  then obtain ep where ep: "parseEndpoint e x = Return ep"
    and rest: "New_loop e (acc @ [ep]) xs = Return s"
    by (auto split: outcome.splits)
  from Cons.IH[OF rest] obtain eps where
    "endpoints s = (acc @ [ep]) @ eps"
    "list_all2 (\<lambda>x ep. parseEndpoint e x = Return ep) xs eps"
    by blast
  with ep show ?case by (intro exI[of _ "ep # eps"]) simp
qed

lemma New_keeps_order:
  "New e ss = Return s \<Longrightarrow> list_all2 (\<lambda>x ep. parseEndpoint e x = Return ep) ss (endpoints s)"
  using New_loop_order[of e "[]" ss s] by (simp add: New_def)

text \<open>
  C6, on the code. \<open>New\<close> of \<open>pkg/server.go\<close> stores the endpoints in a map under
  their mount points: of two endpoints mounted at \<open>/\<close> the second replaces the first,
  and the map keeps no order. \<open>New\<close> with the slice keeps both, in the order given.
\<close>

theorem C6_map_keeps_last_endpoint:
  "New_pkg example_env [''/:file=/srv/a'', ''/:file=/srv/b'']
     = Return \<lparr>endpoints_pkg = [''/'' \<mapsto> filesystemHandler ''/srv/b'' None]\<rparr>
   \<and> New example_env [''/:file=/srv/a'', ''/:file=/srv/b'']
     = Return \<lparr>endpoints =
         [\<lparr>MountPoint = ''/'', Destination = filesystemHandler ''/srv/a'' None\<rparr>,
          \<lparr>MountPoint = ''/'', Destination = filesystemHandler ''/srv/b'' None\<rparr>]\<rparr>"
  by (simp add: New_pkg_def New_def parseEndpoint_pkg_def parseDest_pkg_def parseEndpoint_def
      parseDest_def SplitAfterN2_def Replace1_def staticFiles_pkg_def newFSHandler_pkg_def
      staticFiles_def newFSHandler_def path_defs example_defs Let_def)

subsection \<open>The content type of a served file\<close>

lemma served_content_type:
  assumes "absFilePath e root req = Some p" and "HasPrefix p root"
    and "os_Stat fs p = Some isDir"
    and "os_Open fs (if isDir then p @ ''/index.html'' else p) = Some (ReadAll bytes)"
  shows "header (ServeHTTP e fs (filesystemHandler root nf) req w) ''Content-Type''
         = Some (TypeByExtension e (''.'' @ Ext (if isDir then p @ ''/index.html'' else p)))"
  using assms by (simp add: Let_def)

text \<open>
  C4, on the code. \<open>filepath.Ext\<close> gives the extension with its dot, and the handler
  puts one more dot before it: for \<open>/srv/dist/index.html\<close> it looks up \<open>..html\<close>, which
  no table holds, and sets the content type to the empty string, where the type
  registered for \<open>.html\<close> is \<open>text/html; charset=utf-8\<close>. Both versions do so.
\<close>

theorem C4_content_type_is_empty:
  "Ext ''/srv/dist/index.html'' = ''.html''
   \<and> builtin_TypeByExtension ''.html'' = ''text/html; charset=utf-8''
   \<and> status_code (ServeHTTP example_env example_fs (filesystemHandler ''/srv/dist'' None)
        (get_request ''/index.html'' []) fresh) = 200
   \<and> body (ServeHTTP example_env example_fs (filesystemHandler ''/srv/dist'' None)
        (get_request ''/index.html'' []) fresh) = ''<html>home</html>''
   \<and> header (ServeHTTP example_env example_fs (filesystemHandler ''/srv/dist'' None)
        (get_request ''/index.html'' []) fresh) ''Content-Type'' = Some []
   \<and> header (ServeHTTP_pkg example_env example_fs (filesystemHandler ''/srv/dist'' None)
        (get_request ''/index.html'' []) fresh) ''Content-Type'' = Some []"
  by (simp add: path_defs example_defs Let_def)

subsection \<open>The not-found handler\<close>

lemma status_code_steps [simp]:
  "status_code fresh = 200"
  "status_code (record_call w c) = status_code w"
  "status_code (Header_Set w k v) = status_code w"
  "status_code (Write w bytes) = status_code w"
  "status_code (io_Copy w bytes) = status_code w"
  "status_code (http_Error w msg code) = (case status w of None \<Rightarrow> code | Some c \<Rightarrow> c)"
  by (auto simp: response_defs Let_def split: option.splits)

lemma NotFound_opens_once:
  "calls (ServeHTTP e fs (NotFoundFileHandler fp) req w) = calls w @ [OpenCall fp]"
  by (simp add: Let_def split: option.splits read_result.splits)

lemma NotFound_status:
  "status_code (ServeHTTP e fs (NotFoundFileHandler fp) req w) = status_code w"
  by (simp add: Let_def split: option.splits read_result.splits)

lemma NotFound_same_pkg:
  "ServeHTTP_pkg e fs (NotFoundFileHandler fp) req w = ServeHTTP e fs (NotFoundFileHandler fp) req w"
  by simp

text \<open>
  C9. On every call the not-found handler opens its file, once, and opens nothing
  else; the reply is made from what the file system holds at that call. When the
  file cannot be opened the reply is \<open>unable to get 404 page\<close>; when copying it
  fails the reply is what was copied before, followed by \<open>unable to send 404 page\<close>;
  otherwise it is the bytes of the file. The status is 200 in each case, never 500.
  The handler of \<open>pkg/server.go\<close> is the same.
\<close>

theorem C9_not_found_handler:
  "(os_Open fs fp = None \<longrightarrow>
      body (ServeHTTP e fs (NotFoundFileHandler fp) req fresh) = ''unable to get 404 page'')
   \<and> (os_Open fs fp = Some (ReadError copied) \<longrightarrow>
      body (ServeHTTP e fs (NotFoundFileHandler fp) req fresh)
        = copied @ ''unable to send 404 page'')
   \<and> (os_Open fs fp = Some (ReadAll bytes) \<longrightarrow>
      body (ServeHTTP e fs (NotFoundFileHandler fp) req fresh) = bytes)
   \<and> status_code (ServeHTTP e fs (NotFoundFileHandler fp) req fresh) = 200
   \<and> status_code (ServeHTTP e fs (NotFoundFileHandler fp) req fresh) \<noteq> 500
   \<and> calls (ServeHTTP e fs (NotFoundFileHandler fp) req fresh) = [OpenCall fp]
   \<and> ServeHTTP_pkg e fs (NotFoundFileHandler fp) req fresh
       = ServeHTTP e fs (NotFoundFileHandler fp) req fresh"
proof -
  have "status_code (ServeHTTP e fs (NotFoundFileHandler fp) req fresh) = 200"
    by (simp only: NotFound_status status_code_steps)
  moreover have "calls (ServeHTTP e fs (NotFoundFileHandler fp) req fresh) = [OpenCall fp]"
    by (simp only: NotFound_opens_once fresh_simps append_Nil)
  moreover have "os_Open fs fp = None \<longrightarrow>
      body (ServeHTTP e fs (NotFoundFileHandler fp) req fresh) = ''unable to get 404 page''"
    by (simp add: Let_def)
  moreover have "os_Open fs fp = Some (ReadError copied) \<longrightarrow>
      body (ServeHTTP e fs (NotFoundFileHandler fp) req fresh)
        = copied @ ''unable to send 404 page''"
    by (simp add: Let_def)
  moreover have "os_Open fs fp = Some (ReadAll bytes) \<longrightarrow>
      body (ServeHTTP e fs (NotFoundFileHandler fp) req fresh) = bytes"
    by (simp add: Let_def)
  ultimately show ?thesis by (simp add: NotFound_same_pkg)
qed

theorem C9_not_found_handler_witness:
  "os_Open example_fs ''/srv/missing.html'' = None
   \<and> body (ServeHTTP example_env example_fs (NotFoundFileHandler ''/srv/missing.html'')
        (get_request ''/nowhere'' []) fresh) = ''unable to get 404 page''
   \<and> status_code (ServeHTTP example_env example_fs (NotFoundFileHandler ''/srv/missing.html'')
        (get_request ''/nowhere'' []) fresh) = 200
   \<and> os_Open example_fs ''/srv/broken.html'' = Some (ReadError [])
   \<and> body (ServeHTTP example_env example_fs (NotFoundFileHandler ''/srv/broken.html'')
        (get_request ''/nowhere'' []) fresh) = ''unable to send 404 page''
   \<and> os_Open example_fs ''/srv/404.html'' = Some (ReadAll ''<html>lost</html>'')
   \<and> body (ServeHTTP example_env example_fs (NotFoundFileHandler ''/srv/404.html'')
        (get_request ''/nowhere'' []) fresh) = ''<html>lost</html>''"
proof -
  have o: "os_Open example_fs ''/srv/missing.html'' = None"
      "os_Open example_fs ''/srv/broken.html'' = Some (ReadError [])"
      "os_Open example_fs ''/srv/404.html'' = Some (ReadAll ''<html>lost</html>'')"
    by (simp_all add: example_fs_def)
  note a = C9_not_found_handler[where e = example_env and fs = example_fs
      and fp = "''/srv/missing.html''" and req = "get_request ''/nowhere'' []"]
  note b = C9_not_found_handler[where e = example_env and fs = example_fs
      and fp = "''/srv/broken.html''" and req = "get_request ''/nowhere'' []"
      and copied = "[]"]
  note c = C9_not_found_handler[where e = example_env and fs = example_fs
      and fp = "''/srv/404.html''" and req = "get_request ''/nowhere'' []"
      and bytes = "''<html>lost</html>''"]
  from a b c o show ?thesis by simp
qed

subsection \<open>A file that cannot be served\<close>

lemma stat_fails:
  assumes "absFilePath e root req = Some p" and "HasPrefix p root" and "os_Stat fs p = None"
  shows "ServeHTTP e fs (filesystemHandler root nf) req w
         = (case nf of
              None \<Rightarrow> http_Error (record_call w (StatCall p))
                        ''404 - Not found (not found handler missing)'' 404
            | Some h \<Rightarrow> ServeHTTP e fs h req (record_call w (StatCall p)))"
  using assms by (simp add: Let_def)

lemma open_fails:
  assumes "absFilePath e root req = Some p" and "HasPrefix p root" and "os_Stat fs p = Some d"
    and "os_Open fs (if d then p @ ''/index.html'' else p) = None"
  shows "ServeHTTP e fs (filesystemHandler root nf) req w
         = (case nf of
              None \<Rightarrow> http_Error (record_call (record_call w (StatCall p))
                          (OpenCall (if d then p @ ''/index.html'' else p)))
                        ''404 - Not found'' 404
            | Some h \<Rightarrow> ServeHTTP e fs h req (record_call (record_call w (StatCall p))
                          (OpenCall (if d then p @ ''/index.html'' else p))))"
  using assms by (simp add: Let_def)

lemma fresh_with_calls:
  "record_call fresh c = fresh\<lparr>calls := [c]\<rparr>"
  "record_call (fresh\<lparr>calls := cs\<rparr>) c = fresh\<lparr>calls := cs @ [c]\<rparr>"
  by (simp_all add: record_call_def fresh_def)

lemma fallback_page:
  assumes "os_Open fs fp = Some (ReadAll bytes)"
  shows "body (ServeHTTP e fs (LoggingMiddleware (NotFoundFileHandler fp)) req (fresh\<lparr>calls := cs\<rparr>))
           = bytes"
    and "status_code (ServeHTTP e fs (LoggingMiddleware (NotFoundFileHandler fp)) req
           (fresh\<lparr>calls := cs\<rparr>)) = 200"
  using assms by (simp_all add: Let_def)

text \<open>
  C3. Let the path of a request pass the guard, and let \<open>os.Stat\<close> fail on it, or
  \<open>os.Open\<close> fail on the file (for a directory, its \<open>index.html\<close>). A handler without a
  not-found handler replies 404 with a fixed line. A handler with one hands the
  request, unchanged, to it, and the reply is the one it writes: for the not-found
  handler that \<open>Start\<close> installs, the bytes of the page with status 200 when the page
  can be read.
\<close>

theorem C3_fallback_or_404:
  assumes "absFilePath e root req = Some p" and "HasPrefix p root"
    and "os_Stat fs p = None
         \<or> (\<exists>d. os_Stat fs p = Some d \<and> os_Open fs (if d then p @ ''/index.html'' else p) = None)"
  shows "status_code (ServeHTTP e fs (filesystemHandler root None) req fresh) = 404
         \<and> body (ServeHTTP e fs (filesystemHandler root None) req fresh)
            \<in> {''404 - Not found (not found handler missing)'' @ [CHR 0x0A],
                ''404 - Not found'' @ [CHR 0x0A]}
         \<and> (\<exists>cs. ServeHTTP e fs (filesystemHandler root (Some h)) req fresh
                   = ServeHTTP e fs h req (fresh\<lparr>calls := cs\<rparr>))
         \<and> (os_Open fs fp = Some (ReadAll bytes) \<longrightarrow>
              status_code (ServeHTTP e fs
                 (filesystemHandler root (Some (LoggingMiddleware (NotFoundFileHandler fp))))
                 req fresh) = 200
              \<and> body (ServeHTTP e fs
                 (filesystemHandler root (Some (LoggingMiddleware (NotFoundFileHandler fp))))
                 req fresh) = bytes)"
proof -
  let ?nf = "LoggingMiddleware (NotFoundFileHandler fp)"
  from assms(3) obtain cs msg where
    none: "ServeHTTP e fs (filesystemHandler root None) req fresh
           = http_Error (fresh\<lparr>calls := cs\<rparr>) msg 404"
    and msg: "msg = ''404 - Not found (not found handler missing)'' \<or> msg = ''404 - Not found''"
    and some: "\<And>h. ServeHTTP e fs (filesystemHandler root (Some h)) req fresh
           = ServeHTTP e fs h req (fresh\<lparr>calls := cs\<rparr>)"
  proof
    assume s: "os_Stat fs p = None"
    show ?thesis
      by (rule that[of "[StatCall p]" "''404 - Not found (not found handler missing)''"])
        (simp_all add: stat_fails[OF assms(1,2) s] fresh_with_calls del: ServeHTTP.simps)
  next
    assume "\<exists>d. os_Stat fs p = Some d
              \<and> os_Open fs (if d then p @ ''/index.html'' else p) = None"
    then obtain d where s: "os_Stat fs p = Some d"
      and o: "os_Open fs (if d then p @ ''/index.html'' else p) = None" by blast
    show ?thesis
      by (rule that[of "[StatCall p, OpenCall (if d then p @ ''/index.html'' else p)]"
            "''404 - Not found''"])
        (simp_all add: open_fails[OF assms(1,2) s o] fresh_with_calls del: ServeHTTP.simps)
  qed
  have 1: "status_code (ServeHTTP e fs (filesystemHandler root None) req fresh) = 404"
    unfolding none by (simp add: fresh_def)
  have 2: "body (ServeHTTP e fs (filesystemHandler root None) req fresh)
            \<in> {''404 - Not found (not found handler missing)'' @ [CHR 0x0A],
                ''404 - Not found'' @ [CHR 0x0A]}"
    unfolding none using msg by (auto simp: fresh_def)
  have 3: "\<exists>cs. ServeHTTP e fs (filesystemHandler root (Some h)) req fresh
                   = ServeHTTP e fs h req (fresh\<lparr>calls := cs\<rparr>)"
    using some by blast
  have 4: "status_code (ServeHTTP e fs (filesystemHandler root (Some ?nf)) req fresh) = 200
         \<and> body (ServeHTTP e fs (filesystemHandler root (Some ?nf)) req fresh) = bytes"
    if "os_Open fs fp = Some (ReadAll bytes)"
    unfolding some using fallback_page[OF that] by blast
  from 1 2 3 4 show ?thesis by blast
qed

theorem C3_fallback_or_404_witness:
  "absFilePath example_env ''/srv/dist'' (get_request ''/missing.js'' [])
     = Some ''/srv/dist/missing.js''
   \<and> HasPrefix ''/srv/dist/missing.js'' ''/srv/dist''
   \<and> os_Stat example_fs ''/srv/dist/missing.js'' = None
   \<and> os_Open example_fs ''/srv/404.html'' = Some (ReadAll ''<html>lost</html>'')
   \<and> status_code (ServeHTTP example_env example_fs (filesystemHandler ''/srv/dist'' None)
        (get_request ''/missing.js'' []) fresh) = 404
   \<and> status_code (ServeHTTP example_env example_fs
        (filesystemHandler ''/srv/dist''
           (Some (LoggingMiddleware (NotFoundFileHandler ''/srv/404.html''))))
        (get_request ''/missing.js'' []) fresh) = 200
   \<and> body (ServeHTTP example_env example_fs
        (filesystemHandler ''/srv/dist''
           (Some (LoggingMiddleware (NotFoundFileHandler ''/srv/404.html''))))
        (get_request ''/missing.js'' []) fresh) = ''<html>lost</html>''"
proof -
  have a: "absFilePath example_env ''/srv/dist'' (get_request ''/missing.js'' [])
             = Some ''/srv/dist/missing.js''"
    by (simp add: path_defs example_defs)
  have p: "HasPrefix ''/srv/dist/missing.js'' ''/srv/dist''"
    by (simp add: HasPrefix_def)
  have s: "os_Stat example_fs ''/srv/dist/missing.js'' = None"
    by (simp add: example_fs_def)
  have o: "os_Open example_fs ''/srv/404.html'' = Some (ReadAll ''<html>lost</html>'')"
    by (simp add: example_fs_def)
  from s have f: "os_Stat example_fs ''/srv/dist/missing.js'' = None
         \<or> (\<exists>d. os_Stat example_fs ''/srv/dist/missing.js'' = Some d
               \<and> os_Open example_fs
                    (if d then ''/srv/dist/missing.js'' @ ''/index.html''
                     else ''/srv/dist/missing.js'') = None)"
    by (rule disjI1)
  from C3_fallback_or_404[OF a p f, where fp = "''/srv/404.html''"
      and bytes = "''<html>lost</html>''"] a p s o
  show ?thesis by blast
qed

subsection \<open>Cleaning a path\<close>

lemma path_elems_not_Nil [simp]: "path_elems p \<noteq> []"
  by (induction p) (auto split: list.splits)

lemma path_elems_append_slash:
  "path_elems (p @ CHR ''/'' # q) = path_elems p @ path_elems q"
proof (induction p)
  case Nil
  show ?case by simp
next
  case (Cons c cs)
  obtain e es where "path_elems cs = e # es"
    by (cases "path_elems cs") simp_all
  with Cons show ?case by simp
qed

lemma clean_step_dropped [simp]:
  "clean_step rooted kept [] = kept" "clean_step rooted kept ''.'' = kept"
  by (simp_all add: clean_step_def)

lemma Clean_directory_marker:
  assumes "root \<noteq> []"
  shows "Clean (root @ ''///./'') = Clean root"
proof -
  have "path_elems (root @ ''///./'') = path_elems root @ [[], [], ''.'', []]"
    using path_elems_append_slash[of root "''//./''"] by simp
  moreover from assms have "hd (root @ ''///./'') = hd root" by simp
  ultimately show ?thesis
    using assms by (simp add: Clean_def Let_def)
qed

lemma Join_directory_marker:
  assumes "root \<noteq> []"
  shows "filepath_Join [root, ''/'', ''./''] = Clean root"
  using assms Clean_directory_marker[OF assms] by (simp add: filepath_Join_def)

lemma request_uri_root:
  "RequestURI req = ''/'' \<Longrightarrow> request_uri req = ''./''"
  by (simp add: request_uri_def HasPrefix_def)

lemma absFilePath_root:
  assumes "RequestURI req = ''/''" and "HasPrefix root ''/''" and "Clean root = root"
  shows "absFilePath e root req = Some root"
proof -
  from assms(2) have ne: "root \<noteq> []" by (auto simp: HasPrefix_def)
  show ?thesis
    using assms
    by (simp add: absFilePath_def request_uri_root Join_directory_marker[OF ne]
        filepath_Abs_def Let_def)
qed

subsection \<open>From the request to the file\<close>

lemma same_RequestURI:
  assumes "RequestURI r1 = RequestURI r2"
  shows "absFilePath e root r1 = absFilePath e root r2"
    and "ServeHTTP e fs (filesystemHandler root None) r1 w
         = ServeHTTP e fs (filesystemHandler root None) r2 w"
proof -
  from assms show a: "absFilePath e root r1 = absFilePath e root r2"
    by (simp add: absFilePath_def request_uri_def)
  show "ServeHTTP e fs (filesystemHandler root None) r1 w
         = ServeHTTP e fs (filesystemHandler root None) r2 w"
    by (simp add: a Let_def split: option.splits read_result.splits)
qed

lemma serves_index:
  assumes "RequestURI req = ''/''" and "HasPrefix root ''/''" and "Clean root = root"
    and "os_Stat fs root = Some True"
    and "os_Open fs (root @ ''/index.html'') = Some (ReadAll bytes)"
  shows "status_code (ServeHTTP e fs (filesystemHandler root nf) req fresh) = 200"
    and "body (ServeHTTP e fs (filesystemHandler root nf) req fresh) = bytes"
    and "calls (ServeHTTP e fs (filesystemHandler root nf) req fresh)
         = [StatCall root, OpenCall (root @ ''/index.html'')]"
  using assms(4,5) absFilePath_root[OF assms(1-3), of e]
  by (simp_all add: Let_def HasPrefix_def)

text \<open>
  What holds of the way from the request to the file. Two requests with the same
  \<open>RequestURI\<close> get the same path and, from a handler without a not-found handler,
  the same reply. One leading slash is taken off, no more, and nothing left stands
  for the directory itself. The request \<open>/\<close> to a handler whose directory is a
  cleaned absolute path, and holds a readable \<open>index.html\<close>, is answered with the
  bytes of that file and status 200.
\<close>

lemma RequestURI_resolution:
  "(RequestURI r1 = RequestURI r2 \<longrightarrow>
      absFilePath e root r1 = absFilePath e root r2
      \<and> ServeHTTP e fs (filesystemHandler root None) r1 w
          = ServeHTTP e fs (filesystemHandler root None) r2 w)
   \<and> request_uri (req\<lparr>RequestURI := CHR ''/'' # u\<rparr>) = (if u = [] then ''./'' else u)
   \<and> (\<not> HasPrefix u ''/'' \<longrightarrow>
        request_uri (req\<lparr>RequestURI := u\<rparr>) = (if u = [] then ''./'' else u))
   \<and> (RequestURI req = ''/'' \<and> HasPrefix root ''/'' \<and> Clean root = root
        \<and> os_Stat fs root = Some True
        \<and> os_Open fs (root @ ''/index.html'') = Some (ReadAll bytes) \<longrightarrow>
        status_code (ServeHTTP e fs (filesystemHandler root nf) req fresh) = 200
        \<and> body (ServeHTTP e fs (filesystemHandler root nf) req fresh) = bytes
        \<and> calls (ServeHTTP e fs (filesystemHandler root nf) req fresh)
            = [StatCall root, OpenCall (root @ ''/index.html'')])"
proof (intro conjI impI)
  assume "RequestURI r1 = RequestURI r2"
  then show "absFilePath e root r1 = absFilePath e root r2"
    and "ServeHTTP e fs (filesystemHandler root None) r1 w
         = ServeHTTP e fs (filesystemHandler root None) r2 w"
    by (rule same_RequestURI)+
next
  show "request_uri (req\<lparr>RequestURI := CHR ''/'' # u\<rparr>) = (if u = [] then ''./'' else u)"
    by (simp add: request_uri_def HasPrefix_def)
next
  assume "\<not> HasPrefix u ''/''"
  then show "request_uri (req\<lparr>RequestURI := u\<rparr>) = (if u = [] then ''./'' else u)"
    by (simp add: request_uri_def)
next
  assume a: "RequestURI req = ''/'' \<and> HasPrefix root ''/'' \<and> Clean root = root
        \<and> os_Stat fs root = Some True
        \<and> os_Open fs (root @ ''/index.html'') = Some (ReadAll bytes)"
  then show "status_code (ServeHTTP e fs (filesystemHandler root nf) req fresh) = 200"
    by (intro serves_index(1)) blast+
  from a show "body (ServeHTTP e fs (filesystemHandler root nf) req fresh) = bytes"
    by (intro serves_index(2)) blast+
  from a show "calls (ServeHTTP e fs (filesystemHandler root nf) req fresh)
            = [StatCall root, OpenCall (root @ ''/index.html'')]"
    by (intro serves_index(3)) blast+
qed

lemma RequestURI_resolution_example:
  "RequestURI (get_request ''/'' []) = ''/''
   \<and> HasPrefix ''/srv/dist'' ''/''
   \<and> Clean ''/srv/dist'' = ''/srv/dist''
   \<and> os_Stat example_fs ''/srv/dist'' = Some True
   \<and> os_Open example_fs ''/srv/dist/index.html'' = Some (ReadAll ''<html>home</html>'')
   \<and> status_code (ServeHTTP example_env example_fs (filesystemHandler ''/srv/dist'' None)
        (get_request ''/'' []) fresh) = 200
   \<and> body (ServeHTTP example_env example_fs (filesystemHandler ''/srv/dist'' None)
        (get_request ''/'' []) fresh) = ''<html>home</html>''
   \<and> request_uri ((get_request ''/'' [])\<lparr>RequestURI := ''//a''\<rparr>) = ''/a''"
proof -
  have h: "RequestURI (get_request ''/'' []) = ''/''"
      "HasPrefix ''/srv/dist'' ''/''"
      "Clean ''/srv/dist'' = ''/srv/dist''"
      "os_Stat example_fs ''/srv/dist'' = Some True"
      "os_Open example_fs (''/srv/dist'' @ ''/index.html'') = Some (ReadAll ''<html>home</html>'')"
    by (simp_all add: path_defs example_defs)
  note t = RequestURI_resolution[where e = example_env and fs = example_fs
      and root = "''/srv/dist''" and req = "get_request ''/'' []" and nf = None
      and bytes = "''<html>home</html>''" and u = "''/a''"]
  from t h show ?thesis by auto
qed

text \<open>
  C7, on the code. The handler finds the file from \<open>RequestURI\<close>, the request target
  as it was sent, and not from the path of the request: the query string becomes
  part of the file name. The requests \<open>/index.html\<close> and \<open>/index.html?v=1\<close> have the
  same path; the first is served, for the second the handler looks for a file named
  \<open>index.html?v=1\<close> and replies 404, in both versions. In \<open>pkg/server.go\<close>, moreover,
  the request \<open>/\<close> is not answered with \<open>index.html\<close> when the directory was given
  as \<open>./dist/\<close>: the handler keeps the directory as given, the cleaned path \<open>dist\<close>
  does not start with it, and every request is refused with 404 before any file is
  looked at.
\<close>

theorem C7_request_uri_as_file_name:
  "Path (URL (get_request ''/index.html'' ''v=1'')) = Path (URL (get_request ''/index.html'' []))
   \<and> RequestURI (get_request ''/index.html'' ''v=1'') = ''/index.html?v=1''
   \<and> status_code (ServeHTTP example_env example_fs (filesystemHandler ''/srv/dist'' None)
        (get_request ''/index.html'' []) fresh) = 200
   \<and> status_code (ServeHTTP example_env example_fs (filesystemHandler ''/srv/dist'' None)
        (get_request ''/index.html'' ''v=1'') fresh) = 404
   \<and> calls (ServeHTTP example_env example_fs (filesystemHandler ''/srv/dist'' None)
        (get_request ''/index.html'' ''v=1'') fresh) = [StatCall ''/srv/dist/index.html?v=1'']
   \<and> status_code (ServeHTTP_pkg example_env example_fs (filesystemHandler ''/srv/dist'' None)
        (get_request ''/index.html'' []) fresh) = 200
   \<and> status_code (ServeHTTP_pkg example_env example_fs (filesystemHandler ''/srv/dist'' None)
        (get_request ''/index.html'' ''v=1'') fresh) = 404
   \<and> calls (ServeHTTP_pkg example_env example_fs (filesystemHandler ''/srv/dist'' None)
        (get_request ''/index.html'' ''v=1'') fresh) = [StatCall ''/srv/dist/index.html?v=1'']
   \<and> parseEndpoint_pkg example_env ''/:file=./dist/''
       = Return \<lparr>MountPoint = ''/'', Destination = filesystemHandler ''./dist/'' None\<rparr>
   \<and> os_Stat example_fs_relative ''dist'' = Some True
   \<and> os_Open example_fs_relative ''dist/index.html'' = Some (ReadAll ''<html>home</html>'')
   \<and> fromSlash ''./dist/'' (get_request ''/'' []) = ''dist''
   \<and> status_code (ServeHTTP_pkg example_env example_fs_relative
        (filesystemHandler ''./dist/'' None) (get_request ''/'' []) fresh) = 404
   \<and> calls (ServeHTTP_pkg example_env example_fs_relative
        (filesystemHandler ''./dist/'' None) (get_request ''/'' []) fresh) = []
   \<and> fromSlash ''./dist/'' (get_request ''/index.html'' []) = ''dist/index.html''
   \<and> status_code (ServeHTTP_pkg example_env example_fs_relative
        (filesystemHandler ''./dist/'' None) (get_request ''/index.html'' []) fresh) = 404"
  by (simp add: path_defs example_defs example_fs_relative_def parseEndpoint_pkg_def
      parseDest_pkg_def SplitAfterN2_def Replace1_def staticFiles_pkg_def newFSHandler_pkg_def
      Let_def)

subsection \<open>A cleaned path stays as it is\<close>

lemma path_elems_no_slash:
  "e \<in> set (path_elems p) \<Longrightarrow> CHR ''/'' \<notin> set e"
proof (induction p arbitrary: e)
  case Nil
  then show ?case by simp
next
  case (Cons c cs)
  obtain x xs where x: "path_elems cs = x # xs"
    by (cases "path_elems cs") simp_all
  with Cons show ?case by (auto split: if_splits)
qed

lemma path_elems_single:
  "CHR ''/'' \<notin> set e \<Longrightarrow> path_elems e = [e]"
  by (induction e) auto

lemma path_elems_Join:
  assumes "es \<noteq> []" and "\<forall>e \<in> set es. CHR ''/'' \<notin> set e"
  shows "path_elems (Join_strings es ''/'') = es"
  using assms
proof (induction es)
  case Nil
  then show ?case by simp
next
  case (Cons e es)
  show ?case
  proof (cases es)
    case Nil
    with Cons.prems show ?thesis by (simp add: path_elems_single)
  next
    case (Cons v va)
    with Cons.IH Cons.prems have "path_elems (Join_strings es ''/'') = es" by simp
    with Cons Cons.prems show ?thesis
      using path_elems_append_slash[of e "Join_strings es ''/''"]
      by (simp add: path_elems_single)
  qed
qed

lemma kept_invariant:
  assumes "\<forall>e \<in> set es. CHR ''/'' \<notin> set e"
    and "kept = rev ns @ replicate n ''..''" and "\<forall>e \<in> set ns. normal_elem e"
    and "rooted \<longrightarrow> n = 0"
  shows "\<exists>ns' n'. foldl (clean_step rooted) kept es = rev ns' @ replicate n' ''..''
           \<and> (\<forall>e \<in> set ns'. normal_elem e) \<and> (rooted \<longrightarrow> n' = 0)"
  using assms
proof (induction es arbitrary: kept ns n)
  case Nil
  then show ?case by auto
next
  case (Cons x xs)
  have "\<exists>ns' n'. clean_step rooted kept x = rev ns' @ replicate n' ''..''
           \<and> (\<forall>e \<in> set ns'. normal_elem e) \<and> (rooted \<longrightarrow> n' = 0)"
  proof (cases "x = [] \<or> x = ''.''")
    case True
    with Cons.prems show ?thesis by (auto simp: clean_step_def)
  next
    case False
    note nx = this
    show ?thesis
    proof (cases "x = ''..''")
      case False
      with nx Cons.prems(1) have "normal_elem x" by (simp add: normal_elem_def)
      with Cons.prems(2,3,4) nx False
      have "clean_step rooted kept x = rev (ns @ [x]) @ replicate n ''..''
            \<and> (\<forall>e \<in> set (ns @ [x]). normal_elem e) \<and> (rooted \<longrightarrow> n = 0)"
        by (simp add: clean_step_def)
      then show ?thesis by blast
    next
      case True
      show ?thesis
      proof (cases ns rule: rev_cases)
        case Nil
        with Cons.prems(2) have k: "kept = replicate n ''..''" by simp
        show ?thesis
        proof (cases n)
          case 0
          with k True have "clean_step rooted kept x = rev [] @ replicate (if rooted then 0 else 1) ''..''"
            by (simp add: clean_step_def)
          then show ?thesis by (intro exI[of _ "[]"] exI[of _ "if rooted then 0 else 1"]) auto
        next
          case (Suc m)
          with k True Cons.prems(4)
          have "clean_step rooted kept x = rev [] @ replicate (Suc n) ''..'' \<and> \<not> rooted"
            by (simp add: clean_step_def)
          then show ?thesis by (intro exI[of _ "[]"] exI[of _ "Suc n"]) auto
        qed
      next
        case (snoc ms m)
        with Cons.prems(2) have k: "kept = m # rev ms @ replicate n ''..''" by simp
        from snoc Cons.prems(3) have "m \<noteq> ''..''" by (auto simp: normal_elem_def)
        with k True have "clean_step rooted kept x = rev ms @ replicate n ''..''"
          by (simp add: clean_step_def)
        with snoc Cons.prems(3,4) show ?thesis by auto
      qed
    qed
  qed
  then obtain ns' n' where
    "clean_step rooted kept x = rev ns' @ replicate n' ''..''"
    "\<forall>e \<in> set ns'. normal_elem e" "rooted \<longrightarrow> n' = 0"
    by blast
  from Cons.IH[OF _ this] Cons.prems(1) show ?case by simp
qed

lemma foldl_clean_normal:
  "\<forall>e \<in> set ns. normal_elem e \<Longrightarrow> foldl (clean_step rooted) kept ns = rev ns @ kept"
  by (induction ns arbitrary: kept) (auto simp: clean_step_def normal_elem_def)

lemma foldl_clean_dots:
  "foldl (clean_step False) (replicate k ''..'') (replicate n ''..'') = replicate (n + k) ''..''"
proof (induction n arbitrary: k)
  case 0
  show ?case by simp
next
  case (Suc n)
  have "clean_step False (replicate k ''..'') ''..'' = replicate (Suc k) ''..''"
    by (cases k) (simp_all add: clean_step_def)
  with Suc[of "Suc k"] show ?case by simp
qed

lemma foldl_clean_kept:
  assumes "\<forall>e \<in> set ns. normal_elem e" and "rooted \<longrightarrow> n = 0"
  shows "foldl (clean_step rooted) [] (replicate n ''..'' @ ns) = rev ns @ replicate n ''..''"
proof (cases rooted)
  case True
  with assms show ?thesis by (simp add: foldl_clean_normal)
next
  case False
  with assms foldl_clean_dots[of 0 n] show ?thesis by (simp add: foldl_clean_normal)
qed

lemma Clean_rooted:
  assumes "p \<noteq> []" and "hd p = CHR ''/''"
    and "foldl (clean_step True) [] (path_elems p) = kept"
  shows "Clean p = CHR ''/'' # Join_strings (rev kept) ''/''"
  using assms by (simp add: Clean_def Let_def)

lemma Clean_unrooted:
  assumes "p \<noteq> []" and "hd p \<noteq> CHR ''/''"
    and "foldl (clean_step False) [] (path_elems p) = kept"
  shows "Clean p = (if kept = [] then ''.'' else Join_strings (rev kept) ''/'')"
  using assms by (simp add: Clean_def Let_def)

lemma Clean_idempotent: "Clean (Clean p) = Clean p"
proof (cases "p = []")
  case True
  have "Clean ''.'' = ''.''"
    by (simp add: Clean_def clean_step_def)
  with True show ?thesis by (simp add: Clean_def)
next
  case False
  define rooted where "rooted = (hd p = CHR ''/'')"
  define kept where "kept = foldl (clean_step rooted) [] (path_elems p)"
  have "\<exists>ns n. kept = rev ns @ replicate n ''..''
           \<and> (\<forall>e \<in> set ns. normal_elem e) \<and> (rooted \<longrightarrow> n = 0)"
    unfolding kept_def
    by (rule kept_invariant[where ns = "[]" and n = 0]) (simp_all add: path_elems_no_slash)
  then obtain ns n where kept: "kept = rev ns @ replicate n ''..''"
    and ns: "\<forall>e \<in> set ns. normal_elem e" and n: "rooted \<longrightarrow> n = 0"
    by blast
  define es where "es = replicate n ''..'' @ ns"
  have rk: "rev kept = es" by (simp add: kept es_def)
  have elems: "e = ''..'' \<or> normal_elem e" if "e \<in> set es" for e
    using that ns by (auto simp: es_def)
  have slash: "\<forall>e \<in> set es. CHR ''/'' \<notin> set e"
  proof
    fix e assume "e \<in> set es"
    from elems[OF this] show "CHR ''/'' \<notin> set e"
      by (rule disjE) (simp_all add: normal_elem_def)
  qed
  have fold: "foldl (clean_step rooted) [] es = kept"
    using foldl_clean_kept[OF ns n] by (simp add: es_def kept)
  show ?thesis
  proof (cases rooted)
    case True
    then have "foldl (clean_step True) [] (path_elems p) = kept" "hd p = CHR ''/''"
      by (simp_all add: kept_def rooted_def)
    with False have C: "Clean p = CHR ''/'' # Join_strings es ''/''"
      unfolding rk[symmetric] by (intro Clean_rooted)
    have "path_elems (CHR ''/'' # Join_strings es ''/'')
              = [] # (if es = [] then [[]] else es)"
      using path_elems_Join[OF _ slash] by simp
    then have "foldl (clean_step True) [] (path_elems (CHR ''/'' # Join_strings es ''/'')) = kept"
      using fold True by (cases "es = []") (simp_all add: rk[symmetric])
    then have "Clean (CHR ''/'' # Join_strings es ''/'') = CHR ''/'' # Join_strings (rev kept) ''/''"
      by (intro Clean_rooted) simp_all
    then show ?thesis
      unfolding C rk .
  next
    case unrooted: False
    then have k: "foldl (clean_step False) [] (path_elems p) = kept" "hd p \<noteq> CHR ''/''"
      by (simp_all add: kept_def rooted_def)
    with \<open>p \<noteq> []\<close> have C: "Clean p = (if kept = [] then ''.'' else Join_strings es ''/'')"
      unfolding rk[symmetric] by (intro Clean_unrooted)
    show ?thesis
    proof (cases "kept = []")
      case True
      have "Clean ''.'' = ''.''"
        by (simp add: Clean_def clean_step_def)
      with True show ?thesis unfolding C by simp
    next
      case False
      with rk have ne: "es \<noteq> []" by auto
      then obtain x xs where x: "es = x # xs" by (cases es) auto
      from x have "x \<in> set es" by simp
      from elems[OF this] have "x \<noteq> []" "CHR ''/'' \<notin> set x"
        by (rule disjE; simp add: normal_elem_def)+
      moreover have "Join_strings es ''/''
                     = x @ (if xs = [] then [] else ''/'' @ Join_strings xs ''/'')"
        unfolding x by (cases xs) simp_all
      ultimately obtain c cs where "Join_strings es ''/'' = c # cs" and "c \<noteq> CHR ''/''"
        by (cases x) auto
      then have hd: "hd (Join_strings es ''/'') \<noteq> CHR ''/''"
          "Join_strings es ''/'' \<noteq> []"
        by simp_all
      have "foldl (clean_step False) [] (path_elems (Join_strings es ''/'')) = kept"
        using path_elems_Join[OF ne slash] fold unrooted by simp
      with hd have "Clean (Join_strings es ''/'')
                    = (if kept = [] then ''.'' else Join_strings (rev kept) ''/'')"
        by (intro Clean_unrooted)
      with False show ?thesis
        unfolding C rk by simp
    qed
  qed
qed

lemma Clean_absolute:
  "HasPrefix p ''/'' \<Longrightarrow> HasPrefix (Clean p) ''/''"
  by (cases p) (simp_all add: Clean_def Let_def HasPrefix_def)

lemma filepath_Abs_clean:
  assumes "filepath_Abs wd arg = Some root"
    and "\<forall>d. wd = Some d \<longrightarrow> HasPrefix d ''/''"
  shows "HasPrefix root ''/'' \<and> Clean root = root"
proof (cases "HasPrefix arg ''/''")
  case True
  with assms(1) have "root = Clean arg" by (simp add: filepath_Abs_def)
  with True show ?thesis by (simp add: Clean_absolute Clean_idempotent)
next
  case False
  with assms obtain d where d: "wd = Some d" "HasPrefix d ''/''" "root = filepath_Join [d, arg]"
    by (auto simp: filepath_Abs_def split: option.splits)
  from d(2) have ne: "d \<noteq> []" by (auto simp: HasPrefix_def)
  then have j: "filepath_Join [d, arg] = Clean (d @ ''/'' @ arg)"
    by (simp add: filepath_Join_def)
  from d(2) ne have "HasPrefix (d @ ''/'' @ arg) ''/''"
    by (cases d) (simp_all add: HasPrefix_def)
  with d(3) j show ?thesis by (simp add: Clean_absolute Clean_idempotent)
qed

text \<open>
  The directory of a handler that \<open>newFSHandler\<close> builds is an absolute, cleaned
  path, the working directory being absolute.
\<close>

lemma newFSHandler_clean:
  assumes "newFSHandler e arg = Return (filesystemHandler root nf)"
    and "\<forall>d. Getwd e = Some d \<longrightarrow> HasPrefix d ''/''"
  shows "HasPrefix root ''/'' \<and> Clean root = root \<and> nf = None"
proof -
  from assms(1) have "filepath_Abs (Getwd e) arg = Some root" "nf = None"
    by (auto simp: newFSHandler_def split: option.splits)
  with filepath_Abs_clean[OF _ assms(2)] show ?thesis by blast
qed

text \<open>
  The server of the example in the README, once assembled: the routes keep the order
  of the endpoints, and the handler of the \<open>404\<close> endpoint is the not-found handler of
  the router and of the file handler.
\<close>

lemma Start_example:
  "New example_env [''/api:proxy=http://127.0.0.1:8080/base'', ''/:file=/srv/dist'',
                    ''404:404=/srv/404.html'']
     = Return s \<Longrightarrow>
   Start s
     = \<lparr>NotFoundHandler = Some (LoggingMiddleware (NotFoundFileHandler ''/srv/404.html'')),
        routes = [(''/api'', ReverseProxy example_upstream),
                  (''/'', filesystemHandler ''/srv/dist''
                     (Some (LoggingMiddleware (NotFoundFileHandler ''/srv/404.html''))))]\<rparr>"
  by (auto simp: New_def parseEndpoint_def parseDest_def SplitAfterN2_def Replace1_def
      reverseProxy_def staticFiles_def newFSHandler_def notFound_def NewNotFoundHandler_def
      path_defs example_env_def Start_def Let_def)

end
